theory Spec2Isabelle
  imports Complex_Main "HOL-Library.Log_Nat"
begin

section \<open>Python values\<close>

text \<open>
  The workflow builders of qsipost pass Python values around: configuration entries
  (\<^verbatim>\<open>config.workflow.sift_term_number\<close>), keyword arguments of interfaces and inputs set
  on nodes. A condition such as \<^verbatim>\<open>if config.workflow.sift_term_number:\<close> tests Python
  truthiness, which is written out in \<open>truthy\<close>.
\<close>

datatype pyval =
    PyNone
  | PyStr string
  | PyInt int
  | PyFloat real
  | PyBool bool
  | PyList "pyval list"

fun truthy :: "pyval \<Rightarrow> bool" where
  "truthy PyNone = False"
| "truthy (PyStr s) = (s \<noteq> [])"
| "truthy (PyInt i) = (i \<noteq> 0)"
| "truthy (PyFloat x) = (x \<noteq> 0)"
| "truthy (PyBool b) = b"
| "truthy (PyList xs) = (xs \<noteq> [])"

text \<open>\<^verbatim>\<open>str(n)\<close> for a non-negative integer, used by \<^verbatim>\<open>f"in{i+1}"\<close>.\<close>

definition digit :: "nat \<Rightarrow> char" where
  "digit n = ''0123456789'' ! n"

function show_nat :: "nat \<Rightarrow> string" where
  "show_nat n = (if n < 10 then [digit n] else show_nat (n div 10) @ [digit (n mod 10)])"
  by pat_completeness auto
termination
  by (relation "measure id") auto

declare show_nat.simps [simp del]

section \<open>The graph engine\<close>

text \<open>
  Every builder of the repository assembles its graph with the pipeline engine of the
  nipype library (\<^verbatim>\<open>from nipype.pipeline import engine as pe\<close>): \<^verbatim>\<open>pe.Node\<close>,
  \<^verbatim>\<open>pe.MapNode\<close>, \<^verbatim>\<open>pe.Workflow\<close>, \<^verbatim>\<open>Workflow.connect\<close> and \<^verbatim>\<open>Workflow.add_nodes\<close>.
  The engine is a library the sources import; this section writes down the part of its
  behaviour the builders rely on.

  An interface declares the ports of a node. \<^verbatim>\<open>IdentityInterface(fields=...)\<close> has the
  listed fields as inputs and as outputs; \<^verbatim>\<open>Merge(n)\<close> has the inputs \<open>in1 .. inn\<close> and the
  output \<open>out\<close>; \<^verbatim>\<open>Function\<close> has its \<open>input_names\<close> and \<open>output_names\<close>. These three
  classes derive from \<^verbatim>\<open>nipype.interfaces.io.IOBase\<close>. The interfaces of the external
  tools (\<^verbatim>\<open>ApplyTransforms\<close>, \<^verbatim>\<open>FitTensor\<close>, \<^verbatim>\<open>Tractography\<close>, the
  \<^verbatim>\<open>qsipost.interfaces\<close> classes, ...) carry their class name and the keyword arguments they
  are constructed with. The engine looks a port up on a tool interface in the port table
  of the tool's class; these tables are in the libraries and not in the sources, and the
  model takes every port the sources name on a tool as declared.
\<close>

datatype interface =
    IdentityInterface "string list"
  | Merge nat
  | Function string "string list" "string list"
  | Tool string "(string \<times> pyval) list"

type_synonym edge = "string \<times> string \<times> string \<times> string"

fun edge_dest :: "edge \<Rightarrow> string \<times> string" where
  "edge_dest (s, sp, d, dp) = (d, dp)"

text \<open>
  A node has a name, an interface and the inputs set on it after construction
  (\<^verbatim>\<open>node.inputs.x = v\<close>); a \<^verbatim>\<open>MapNode\<close> has its \<open>iterfield\<close> as well. A workflow has a
  name, its nodes (a nested workflow is a node) and its edges
  \<open>(source node, source port, destination node, destination port)\<close>, the nodes of an
  edge given by name.
\<close>

datatype node =
    Node string interface "(string \<times> pyval) list"
  | MapNode string interface "string list" "(string \<times> pyval) list"
  | Workflow string "node list" "edge list"

fun node_name :: "node \<Rightarrow> string" where
  "node_name (Node n _ _) = n"
| "node_name (MapNode n _ _ _) = n"
| "node_name (Workflow n _ _) = n"

fun wf_nodes :: "node \<Rightarrow> node list" where
  "wf_nodes (Workflow _ ns _) = ns"
| "wf_nodes _ = []"

fun wf_edges :: "node \<Rightarrow> edge list" where
  "wf_edges (Workflow _ _ es) = es"
| "wf_edges _ = []"

fun is_workflow :: "node \<Rightarrow> bool" where
  "is_workflow (Workflow _ _ _) = True"
| "is_workflow _ = False"

datatype io = PortIn | PortOut

datatype error =
    ValueError string
  | KeyError string
  | AttributeError string
  | DuplicateNodeName string
  | NodeExists string
  | AlreadyConnected string string
  | ConnectionsNotFound "(io \<times> string \<times> string) list"
  | TraitError string
  | DiscoveryError string

text \<open>\<^verbatim>\<open>hasattr(node.inputs, p)\<close> and \<^verbatim>\<open>hasattr(node.outputs, p)\<close> of a plain node.\<close>

fun has_port :: "io \<Rightarrow> interface \<Rightarrow> string \<Rightarrow> bool" where
  "has_port _ (IdentityInterface fields) p = (p \<in> set fields)"
| "has_port PortIn (Merge n) p = (p \<in> set (map (\<lambda>i. ''in'' @ show_nat i) [1..<Suc n]))"
| "has_port PortOut (Merge n) p = (p = ''out'')"
| "has_port PortIn (Function _ ins _) p = (p \<in> set ins)"
| "has_port PortOut (Function _ _ outs) p = (p \<in> set outs)"
| "has_port _ (Tool _ _) p = True"

text \<open>\<^verbatim>\<open>parameter.split(".")\<close>.\<close>

fun split_dots :: "string \<Rightarrow> string list" where
  "split_dots [] = [[]]"
| "split_dots (c # cs) =
     (if c = CHR ''.'' then [] # split_dots cs
      else (case split_dots cs of [] \<Rightarrow> [[c]] | w # ws \<Rightarrow> (c # w) # ws))"

fun find_node :: "string \<Rightarrow> node list \<Rightarrow> node option" where
  "find_node n [] = None"
| "find_node n (x # xs) = (if node_name x = n then Some x else find_node n xs)"

fun find_workflow :: "string \<Rightarrow> node list \<Rightarrow> node option" where
  "find_workflow n [] = None"
| "find_workflow n (x # xs) =
     (if node_name x = n \<and> is_workflow x then Some x else find_workflow n xs)"

text \<open>
  A port of a nested workflow is written \<open>child.port\<close> (or \<open>flow. ... .child.port\<close>): the
  engine walks down the named workflows, then looks the port up on the named child,
  which must be a plain node. An input of the child that already has an incoming edge
  inside the nested workflow is not offered.
\<close>

fun has_attr :: "io \<Rightarrow> node list \<Rightarrow> edge list \<Rightarrow> string list \<Rightarrow> bool" where
  "has_attr d ns es [] = False"
| "has_attr d ns es [a] = False"
| "has_attr d ns es [child, attr] =
     (case find_node child ns of
        Some (Node _ i _) \<Rightarrow>
          has_port d i attr \<and>
          (d = PortOut \<or> (child, attr) \<notin> set (map edge_dest es))
      | Some (MapNode _ i _ _) \<Rightarrow>
          has_port d i attr \<and>
          (d = PortOut \<or> (child, attr) \<notin> set (map edge_dest es))
      | _ \<Rightarrow> False)"
| "has_attr d ns es (w # rest) =
     (case find_workflow w ns of
        Some (Workflow _ ns' es') \<Rightarrow> has_attr d ns' es' rest
      | _ \<Rightarrow> False)"

text \<open>
  The look-up \<^verbatim>\<open>Workflow.connect\<close> makes for a port of one of its own nodes. For a plain
  node the engine skips the look-up when the class of the interface, or one of its
  bases, has \<open>.io\<close> in its name: this holds for the classes derived from \<open>IOBase\<close>, so a
  port named on an identity, merge or function node is accepted whether or not it is
  declared. A port of a nested workflow is looked up inside it.
\<close>

fun io_base :: "interface \<Rightarrow> bool" where
  "io_base (Tool _ _) = False"
| "io_base _ = True"

fun check_port :: "io \<Rightarrow> node \<Rightarrow> string \<Rightarrow> bool" where
  "check_port d (Node _ i _) p = (io_base i \<or> has_port d i p)"
| "check_port d (MapNode _ i _ _) p = (io_base i \<or> has_port d i p)"
| "check_port d (Workflow _ ns es) p = has_attr d ns es (split_dots p)"

text \<open>
  \<^verbatim>\<open>Workflow.connect(connection_list)\<close>, one entry of the list being
  \<^verbatim>\<open>(srcnode, destnode, [(source port, destination port), ...])\<close>:
  \<^enum> the nodes that are new to the workflow are collected, and a new node whose name is
    taken raises (\<open>Duplicate node name\<close>);
  \<^enum> every pair is checked in order: a destination port that already has a connection
    (in the graph, or earlier in the same call) raises at once (\<open>is already connected\<close>),
    on every kind of node; a port that is looked up and not found is recorded;
  \<^enum> if any port was recorded the call raises (\<open>Some connections were not found\<close>) and
    the graph is left as it was;
  \<^enum> otherwise the new nodes and all the edges are added.
  Object identity of nodes is represented by equality of their values; a node counts as
  present in a workflow when it is one of its direct nodes, which is where every node
  the builders connect is.
\<close>

type_synonym connection = "node \<times> node \<times> (string \<times> string) list"

fun add_new :: "node list \<Rightarrow> node list \<Rightarrow> node \<Rightarrow> node list" where
  "add_new ns new n = (if n \<in> set new \<or> n \<in> set ns then new else new @ [n])"

fun new_nodes :: "node list \<Rightarrow> node list \<Rightarrow> connection list \<Rightarrow> node list" where
  "new_nodes ns new [] = new"
| "new_nodes ns new ((s, d, _) # cs) = new_nodes ns (add_new ns (add_new ns new s) d) cs"

fun check_nodes :: "string list \<Rightarrow> node list \<Rightarrow> error option" where
  "check_nodes names [] = None"
| "check_nodes names (n # ns) =
     (if node_name n \<in> set names then Some (DuplicateNodeName (node_name n))
      else check_nodes (names @ [node_name n]) ns)"

fun check_connects ::
  "node \<Rightarrow> node \<Rightarrow> (string \<times> string) list \<Rightarrow> (string \<times> string) list \<Rightarrow>
   (io \<times> string \<times> string) list \<Rightarrow>
   error + ((string \<times> string) list \<times> (io \<times> string \<times> string) list)" where
  "check_connects s d [] taken not_found = Inr (taken, not_found)"
| "check_connects s d ((sp, dp) # ps) taken not_found =
     (if (node_name d, dp) \<in> set taken then Inl (AlreadyConnected (node_name d) dp)
      else check_connects s d ps (taken @ [(node_name d, dp)])
             (not_found
              @ (if check_port PortIn d dp then [] else [(PortIn, node_name d, dp)])
              @ (if check_port PortOut s sp then [] else [(PortOut, node_name s, sp)])))"

fun check_connections ::
  "connection list \<Rightarrow> (string \<times> string) list \<Rightarrow> (io \<times> string \<times> string) list \<Rightarrow>
   error + (io \<times> string \<times> string) list" where
  "check_connections [] taken not_found = Inr not_found"
| "check_connections ((s, d, ps) # cs) taken not_found =
     (case check_connects s d ps taken not_found of
        Inl e \<Rightarrow> Inl e
      | Inr (taken', not_found') \<Rightarrow> check_connections cs taken' not_found')"

fun edges_of :: "connection \<Rightarrow> edge list" where
  "edges_of (s, d, ps) = map (\<lambda>(sp, dp). (node_name s, sp, node_name d, dp)) ps"

definition connect :: "node \<Rightarrow> connection list \<Rightarrow> error + node" where
  "connect flow conns =
     (let new = new_nodes (wf_nodes flow) [] conns in
      case check_nodes (map node_name (wf_nodes flow)) new of
        Some e \<Rightarrow> Inl e
      | None \<Rightarrow>
          (case check_connections conns (map edge_dest (wf_edges flow)) [] of
             Inl e \<Rightarrow> Inl e
           | Inr not_found \<Rightarrow>
               if not_found = []
               then Inr (Workflow (node_name flow) (wf_nodes flow @ new)
                          (wf_edges flow @ concat (map edges_of conns)))
               else Inl (ConnectionsNotFound not_found)))"

text \<open>
  \<^verbatim>\<open>Workflow.add_nodes(nodes)\<close>: a node that is already in the workflow raises, a new
  node whose name is taken raises, the others are added.
\<close>

fun first_present :: "node list \<Rightarrow> node list \<Rightarrow> node option" where
  "first_present ns [] = None"
| "first_present ns (x # xs) = (if x \<in> set ns then Some x else first_present ns xs)"

definition add_nodes :: "node \<Rightarrow> node list \<Rightarrow> error + node" where
  "add_nodes flow nodes =
     (case first_present (wf_nodes flow) nodes of
        Some n \<Rightarrow> Inl (NodeExists (node_name n))
      | None \<Rightarrow>
          (case check_nodes (map node_name (wf_nodes flow)) nodes of
             Some e \<Rightarrow> Inl e
           | None \<Rightarrow> Inr (Workflow (node_name flow) (wf_nodes flow @ nodes) (wf_edges flow))))"

text \<open>The keyword arguments an interface was constructed with, and their lookup.\<close>

fun interface_kwargs :: "interface \<Rightarrow> (string \<times> pyval) list" where
  "interface_kwargs (Tool _ kw) = kw"
| "interface_kwargs _ = []"

fun node_interface :: "node \<Rightarrow> interface option" where
  "node_interface (Node _ i _) = Some i"
| "node_interface (MapNode _ i _ _) = Some i"
| "node_interface (Workflow _ _ _) = None"

definition node_kwargs :: "node \<Rightarrow> string \<Rightarrow> (string \<times> pyval) list" where
  "node_kwargs flow n =
     (case find_node n (wf_nodes flow) of
        None \<Rightarrow> []
      | Some x \<Rightarrow> (case node_interface x of None \<Rightarrow> [] | Some i \<Rightarrow> interface_kwargs i))"

definition node_kwarg :: "node \<Rightarrow> string \<Rightarrow> string \<Rightarrow> pyval option" where
  "node_kwarg flow n k =
     (case find_node n (wf_nodes flow) of
        None \<Rightarrow> None
      | Some x \<Rightarrow>
          (case node_interface x of
             None \<Rightarrow> None
           | Some i \<Rightarrow> map_of (interface_kwargs i) k))"

section \<open>Atlas registration (register\_atlas.py)\<close>

definition registration_inputnode :: node where
  "registration_inputnode =
     Node ''inputnode''
       (IdentityInterface
          [''anatomical_reference'', ''mni_to_native_transform'', ''atlas_name'',
           ''atlas_nifti_file''])
       []"

definition registration_outputnode :: node where
  "registration_outputnode =
     Node ''outputnode'' (IdentityInterface [''whole_brain_parcellation'']) []"

definition apply_transforms :: node where
  "apply_transforms =
     Node ''apply_transforms''
       (Tool ''ApplyTransforms'' [(''interpolation'', PyStr ''NearestNeighbor'')]) []"

definition init_registration_wf :: "string \<Rightarrow> error + node" where
  "init_registration_wf name =
     connect (Workflow name [] [])
       [(registration_inputnode, apply_transforms,
           [(''atlas_nifti_file'', ''input_image''),
            (''mni_to_native_transform'', ''transforms''),
            (''anatomical_reference'', ''reference_image'')]),
        (apply_transforms, registration_outputnode,
           [(''output_image'', ''whole_brain_parcellation'')])]"

text \<open>Every node of a built workflow whose interface is the given tool class.\<close>

fun is_tool :: "string \<Rightarrow> node \<Rightarrow> bool" where
  "is_tool c (Node _ (Tool c' _) _) = (c = c')"
| "is_tool c (MapNode _ (Tool c' _) _ _) = (c = c')"
| "is_tool c _ = False"

section \<open>Tensor estimation (tensor\_estimations/mrtrix3.py)\<close>

text \<open>
  The configuration object \<^verbatim>\<open>qsipost.config\<close> is read by every builder. Its entries are
  Python values; the version is given as the pair \<open>(major, minor)\<close> that
  \<^verbatim>\<open>Version(config.environment.version)\<close> yields, a path as the list of its components, and
  \<open>qsiprep_version\<close> is the entry
  \<^verbatim>\<open>config.execution.layout.description["PipelineDescription"]["Version"]\<close>, \<open>None\<close> when the
  key is missing.
\<close>

type_synonym path = "string list"

record atlas =
  atlas_name :: string
  atlas_nifti_file :: "string option"
  description_csv :: "string option"
  label_name :: "string option"

datatype atlas_setting = AtlasName string | AtlasObject atlas

record config =
  parcellation_atlas :: atlas_setting
  anat_only :: pyval
  version :: "nat \<times> nat"
  work_dir :: path
  output_dir :: path
  participant_label :: "string list"
  run_uuid :: string
  write_graph :: pyval
  qsiprep_version :: "string option"
  omp_nthreads :: pyval
  n_tracts :: pyval
  angle :: pyval
  do_sift_filtering :: pyval
  sift_term_number :: pyval
  sift_term_ratio :: pyval

definition TENSOR_PARAMETERS :: "string list" where
  "TENSOR_PARAMETERS =
     [''adc'', ''fa'', ''ad'', ''rd'', ''cl'', ''cp'', ''cs'', ''evec'', ''eval'']"

definition tensor_inputnode :: node where
  "tensor_inputnode =
     Node ''inputnode''
       (IdentityInterface [''base_directory'', ''dwi_nifti'', ''dwi_grad'', ''dwi_mask'']) []"

definition tensor_outputnode :: node where
  "tensor_outputnode = Node ''outputnode'' (IdentityInterface TENSOR_PARAMETERS) []"

text \<open>
  \<^verbatim>\<open>mrtrix3.FitTensor(nthreads=config.nipype.omp_nthreads)\<close>: \<open>nthreads\<close> is an integer
  trait of the interface, and constructing the interface with a value that is not an
  integer (\<open>None\<close>, a string, a float, a list) raises \<open>TraitError\<close>.
\<close>

fun int_trait :: "pyval \<Rightarrow> bool" where
  "int_trait (PyInt _) = True"
| "int_trait (PyBool _) = True"
| "int_trait _ = False"

definition fit_tensor_node :: "pyval \<Rightarrow> node" where
  "fit_tensor_node nthreads =
     Node ''mrtrix3_tensor_wf'' (Tool ''FitTensor'' [(''nthreads'', nthreads)]) []"

definition dwi2tensor_wf :: "config \<Rightarrow> error + node" where
  "dwi2tensor_wf cfg =
     (if int_trait (omp_nthreads cfg) then Inr (fit_tensor_node (omp_nthreads cfg))
      else Inl (TraitError ''nthreads''))"

definition tensor2metric_wf :: node where
  "tensor2metric_wf =
     Node ''mrtrix3_tensor2metric_wf''
       (Tool ''TensorMetrics''
          (map (\<lambda>param. (''out_'' @ param, PyStr (param @ ''.nii.gz''))) TENSOR_PARAMETERS))
       []"

definition listify_metrics_wf :: node where
  "listify_metrics_wf =
     Node ''listify_tensor_params'' (Merge (length TENSOR_PARAMETERS)) []"

text \<open>
  The keyword table \<^verbatim>\<open>DIFFUSION_WF_OUTPUT_ENTITIES.get("dti_derived_parameters")\<close> is a
  constant of the repository outside the sources at hand; it is the parameter
  \<open>entities\<close>, unpacked in front of the two keywords the builder gives itself.
\<close>

definition ds_tensor_wf :: "(string \<times> pyval) list \<Rightarrow> node" where
  "ds_tensor_wf entities =
     MapNode ''ds_tensor_wf''
       (Tool ''DerivativesDataSink''
          (entities @ [(''reconstruction_software'', PyStr ''mrtrix3''),
                       (''save_meta'', PyBool False)]))
       [''in_file'', ''desc'']
       [(''desc'', PyList (map PyStr TENSOR_PARAMETERS))]"

definition tensor_connections :: "node \<Rightarrow> (string \<times> pyval) list \<Rightarrow> connection list" where
  "tensor_connections dwi2tensor entities =
     [(tensor_inputnode, dwi2tensor,
         [(''dwi_nifti'', ''in_file''),
          (''dwi_grad'', ''grad_file''),
          (''dwi_mask'', ''in_mask'')]),
      (dwi2tensor, tensor2metric_wf,
         [(''out_file'', ''in_file'')]),
      (tensor2metric_wf, tensor_outputnode,
         map (\<lambda>param. (''out_'' @ param, param)) TENSOR_PARAMETERS),
      (tensor_outputnode, listify_metrics_wf,
         map (\<lambda>(i, param). (param, ''in'' @ show_nat (i + 1)))
           (enumerate 0 TENSOR_PARAMETERS)),
      (listify_metrics_wf, ds_tensor_wf entities,
         [(''out'', ''in_file'')]),
      (tensor_inputnode, ds_tensor_wf entities,
         [(''base_directory'', ''base_directory''),
          (''dwi_nifti'', ''source_file'')])]"

definition init_mrtrix3_tensor_wf ::
  "config \<Rightarrow> (string \<times> pyval) list \<Rightarrow> string \<Rightarrow> error + node" where
  "init_mrtrix3_tensor_wf cfg entities name =
     (case dwi2tensor_wf cfg of
        Inl e \<Rightarrow> Inl e
      | Inr dwi2tensor \<Rightarrow>
          connect (Workflow name [] []) (tensor_connections dwi2tensor entities))"

text \<open>
  What the built graph computes at run time, as far as the engine fixes it.

  A \<^verbatim>\<open>Merge(n)\<close> node outputs the values of \<open>in1 .. inn\<close> in this order:
  \<open>merge_sources\<close> lists, in the order of the output sequence, the \<open>(node, port)\<close> that
  feeds each input.

  A \<^verbatim>\<open>MapNode\<close> runs its interface once per position of the lists given for the fields
  of its \<open>iterfield\<close>, the fields taken in lock-step: the number of instances is the
  length of the list of the first field, and the lists of the other fields must have
  that length. The list of a field is the list set on the node
  (\<^verbatim>\<open>node.inputs.desc = [...]\<close>) or the sequence a merge node delivers to it. An instance
  is given by the value of each field of the iterfield: a value set on the node, or the
  value that arrives from a source port.
\<close>

definition feeding :: "node \<Rightarrow> string \<Rightarrow> string \<Rightarrow> (string \<times> string) list" where
  "feeding flow d dp =
     map (\<lambda>(s, sp, t, tp). (s, sp)) (filter (\<lambda>(s, sp, t, tp). t = d \<and> tp = dp) (wf_edges flow))"

definition merge_sources :: "node \<Rightarrow> string \<Rightarrow> (string \<times> string) list" where
  "merge_sources flow m =
     (case find_node m (wf_nodes flow) of
        Some (Node _ (Merge n) _) \<Rightarrow>
          concat (map (\<lambda>k. feeding flow m (''in'' @ show_nat k)) [1..<Suc n])
      | _ \<Rightarrow> [])"

datatype cell = Given pyval | From string string

definition iter_column ::
  "node \<Rightarrow> string \<Rightarrow> (string \<times> pyval) list \<Rightarrow> string \<Rightarrow> cell list" where
  "iter_column flow m inputs field =
     (case map_of inputs field of
        Some (PyList vs) \<Rightarrow> map Given vs
      | _ \<Rightarrow>
          concat (map (\<lambda>(s, sp). if sp = ''out''
                                 then map (\<lambda>(a, b). From a b) (merge_sources flow s) else [])
                   (feeding flow m field)))"

definition lockstep :: "'a list list \<Rightarrow> 'a list list" where
  "lockstep cols =
     (case cols of
        [] \<Rightarrow> []
      | c # cs \<Rightarrow>
          if list_all (\<lambda>x. length x = length c) cs
          then map (\<lambda>k. map (\<lambda>x. x ! k) cols) [0..<length c]
          else [])"

definition mapnode_instances :: "node \<Rightarrow> string \<Rightarrow> (string \<times> cell) list list" where
  "mapnode_instances flow m =
     (case find_node m (wf_nodes flow) of
        Some (MapNode _ _ iterfield inputs) \<Rightarrow>
          lockstep (map (\<lambda>field. map (\<lambda>c. (field, c)) (iter_column flow m inputs field))
                      iterfield)
      | _ \<Rightarrow> [])"

text \<open>The graph the tensor builder is shown to produce (\<open>tensor_built\<close> below).\<close>

definition tensor_edges :: "edge list" where
  "tensor_edges =
     [(''inputnode'', ''dwi_nifti'', ''mrtrix3_tensor_wf'', ''in_file''),
      (''inputnode'', ''dwi_grad'', ''mrtrix3_tensor_wf'', ''grad_file''),
      (''inputnode'', ''dwi_mask'', ''mrtrix3_tensor_wf'', ''in_mask''),
      (''mrtrix3_tensor_wf'', ''out_file'', ''mrtrix3_tensor2metric_wf'', ''in_file''),
      (''mrtrix3_tensor2metric_wf'', ''out_adc'', ''outputnode'', ''adc''),
      (''mrtrix3_tensor2metric_wf'', ''out_fa'', ''outputnode'', ''fa''),
      (''mrtrix3_tensor2metric_wf'', ''out_ad'', ''outputnode'', ''ad''),
      (''mrtrix3_tensor2metric_wf'', ''out_rd'', ''outputnode'', ''rd''),
      (''mrtrix3_tensor2metric_wf'', ''out_cl'', ''outputnode'', ''cl''),
      (''mrtrix3_tensor2metric_wf'', ''out_cp'', ''outputnode'', ''cp''),
      (''mrtrix3_tensor2metric_wf'', ''out_cs'', ''outputnode'', ''cs''),
      (''mrtrix3_tensor2metric_wf'', ''out_evec'', ''outputnode'', ''evec''),
      (''mrtrix3_tensor2metric_wf'', ''out_eval'', ''outputnode'', ''eval''),
      (''outputnode'', ''adc'', ''listify_tensor_params'', ''in1''),
      (''outputnode'', ''fa'', ''listify_tensor_params'', ''in2''),
      (''outputnode'', ''ad'', ''listify_tensor_params'', ''in3''),
      (''outputnode'', ''rd'', ''listify_tensor_params'', ''in4''),
      (''outputnode'', ''cl'', ''listify_tensor_params'', ''in5''),
      (''outputnode'', ''cp'', ''listify_tensor_params'', ''in6''),
      (''outputnode'', ''cs'', ''listify_tensor_params'', ''in7''),
      (''outputnode'', ''evec'', ''listify_tensor_params'', ''in8''),
      (''outputnode'', ''eval'', ''listify_tensor_params'', ''in9''),
      (''listify_tensor_params'', ''out'', ''ds_tensor_wf'', ''in_file''),
      (''inputnode'', ''base_directory'', ''ds_tensor_wf'', ''base_directory''),
      (''inputnode'', ''dwi_nifti'', ''ds_tensor_wf'', ''source_file'')]"

definition tensor_graph :: "pyval \<Rightarrow> (string \<times> pyval) list \<Rightarrow> string \<Rightarrow> node" where
  "tensor_graph nthreads entities name =
     Workflow name
       [tensor_inputnode, fit_tensor_node nthreads, tensor2metric_wf, tensor_outputnode,
        listify_metrics_wf, ds_tensor_wf entities]
       tensor_edges"

section \<open>Tractography (tractography/mrtrix.py, tractography/tractography.py)\<close>

subsection \<open>Floating-point numbers\<close>

text \<open>
  \<^verbatim>\<open>estimate_tractography_parameters\<close> multiplies its arguments, a Python \<^verbatim>\<open>float\<close> and two
  Python \<^verbatim>\<open>int\<close>s, by \<^verbatim>\<open>data.header["pixdim"][1]\<close>, which nibabel hands out as a NumPy
  \<^verbatim>\<open>float32\<close>. The products are floating-point numbers: of the format \<^verbatim>\<open>float32\<close> under
  the promotion rules of NumPy 2 (the Python number is first converted to
  \<^verbatim>\<open>float32\<close>), of the format \<^verbatim>\<open>float64\<close> under the rules of NumPy 1 (both factors are
  converted to \<^verbatim>\<open>float64\<close>, the \<^verbatim>\<open>float32\<close> exactly). The sources do not fix the
  version, so the format of the result is an argument of the model.

  A floating-point value is a finite number \<open>m \<times> 2\<^sup>e\<close>, an infinity (\<open>Infinity True\<close> the
  negative one) or a NaN. The two zeros of the formats are not told apart (they are
  equal as Python values). A format has a precision in bits, a largest exponent, and
  the exponent of the last bit of its smallest numbers.
\<close>

datatype format = Binary32 | Binary64

fun precision :: "format \<Rightarrow> int" where
  "precision Binary32 = 24"
| "precision Binary64 = 53"

fun emax :: "format \<Rightarrow> int" where
  "emax Binary32 = 127"
| "emax Binary64 = 1023"

fun qmin :: "format \<Rightarrow> int" where
  "qmin Binary32 = - 149"
| "qmin Binary64 = - 1074"

datatype fval = Finite int int | Infinity bool | NaN

text \<open>The number \<open>m \<times> 2\<^sup>e\<close> as a real.\<close>

definition dyadic :: "int \<Rightarrow> int \<Rightarrow> real" where
  "dyadic m e = (if 0 \<le> e then of_int m * 2 ^ nat e else of_int m / 2 ^ nat (- e))"

text \<open>A finite value is kept with an odd \<open>m\<close>, zero as \<open>0 \<times> 2\<^sup>0\<close>.\<close>

function normalise :: "int \<Rightarrow> int \<Rightarrow> int \<times> int" where
  "normalise m e =
     (if m = 0 then (0, 0) else if even m then normalise (m div 2) (e + 1) else (m, e))"
  by pat_completeness auto
termination
  by (relation "measure (\<lambda>(m, e). nat \<bar>m\<bar>)") auto

declare normalise.simps [simp del]

text \<open>\<open>m / 2\<^sup>k\<close> rounded to the nearest integer, a tie to the even one.\<close>

definition round_half_even :: "int \<Rightarrow> nat \<Rightarrow> int" where
  "round_half_even m k =
     (let q = m div 2 ^ k; r = m mod 2 ^ k
      in if 2 * r < 2 ^ k then q
         else if 2 ^ k < 2 * r then q + 1
         else if even q then q else q + 1)"

text \<open>
  Rounding to a format (round to nearest, ties to even, the rounding of the hardware and
  of NumPy): a value that fits is kept; otherwise the last bit kept is the one at
  exponent \<open>q\<close>, which is given by the precision or, for the smallest numbers, by the
  format; a rounded value beyond the largest finite number is an infinity.
\<close>

definition round_to :: "format \<Rightarrow> fval \<Rightarrow> fval" where
  "round_to fmt x =
     (case x of
        Finite m e \<Rightarrow>
          (case normalise m e of (m1, e1) \<Rightarrow>
             (let q = max (e1 + bitlen \<bar>m1\<bar> - precision fmt) (qmin fmt)
              in if q \<le> e1
                 then (if emax fmt < e1 + bitlen \<bar>m1\<bar> - 1 then Infinity (m1 < 0)
                       else Finite m1 e1)
                 else (case normalise (round_half_even m1 (nat (q - e1))) q of (m2, e2) \<Rightarrow>
                         if emax fmt < e2 + bitlen \<bar>m2\<bar> - 1 then Infinity (m1 < 0)
                         else Finite m2 e2)))
      | _ \<Rightarrow> x)"

text \<open>
  The values of a format: the finite numbers \<open>m \<times> 2\<^sup>e\<close>, \<open>m\<close> odd, whose \<open>m\<close> has no more
  bits than the precision and whose exponents are in the range of the format; zero;
  the infinities and NaN.
\<close>

definition representable :: "format \<Rightarrow> fval \<Rightarrow> bool" where
  "representable fmt x =
     (case x of
        Finite m e \<Rightarrow>
          (case normalise m e of (m1, e1) \<Rightarrow>
             m1 = 0 \<or>
             (bitlen \<bar>m1\<bar> \<le> precision fmt \<and> qmin fmt \<le> e1
              \<and> e1 + bitlen \<bar>m1\<bar> - 1 \<le> emax fmt))
      | _ \<Rightarrow> True)"

text \<open>The product of two values in a format: the exact product, rounded.\<close>

fun fmul :: "format \<Rightarrow> fval \<Rightarrow> fval \<Rightarrow> fval" where
  "fmul fmt (Finite m e) (Finite n f) = round_to fmt (Finite (m * n) (e + f))"
| "fmul fmt (Finite m e) (Infinity s) = (if m = 0 then NaN else Infinity (s \<noteq> (m < 0)))"
| "fmul fmt (Infinity s) (Finite m e) = (if m = 0 then NaN else Infinity (s \<noteq> (m < 0)))"
| "fmul fmt (Infinity s) (Infinity t) = Infinity (s \<noteq> t)"
| "fmul fmt NaN _ = NaN"
| "fmul fmt _ NaN = NaN"

subsection \<open>The parameters of the tractography\<close>

text \<open>
  \<^verbatim>\<open>estimate_tractography_parameters\<close> loads the image with \<^verbatim>\<open>nib.load\<close> and reads
  \<^verbatim>\<open>data.header["pixdim"][1]\<close>. The file system is given by what it holds under a name:
  nothing (\<^verbatim>\<open>nib.load\<close> raises \<open>FileNotFoundError\<close>), a file that is not an image
  (\<open>ImageFileError\<close>), or a NIfTI image, which is given by the two header fields that
  matter here. \<open>stepscale\<close> is a Python float, that is a value of \<open>Binary64\<close>; the two
  lengths are Python integers.
\<close>

record nifti =
  ndim :: nat
  pixdim :: "fval list"

datatype stored = NoFile | NotImage | Image nifti

datatype load_error = FileNotFoundError string | ImageFileError string | IndexError

definition estimate_tractography_parameters ::
  "format \<Rightarrow> (string \<Rightarrow> stored) \<Rightarrow> string \<Rightarrow> fval \<Rightarrow> int \<Rightarrow> int \<Rightarrow>
   load_error + (fval \<times> fval \<times> fval)" where
  "estimate_tractography_parameters fmt images in_file stepscale lenscale_min lenscale_max =
     (case images in_file of
        NoFile \<Rightarrow> Inl (FileNotFoundError in_file)
      | NotImage \<Rightarrow> Inl (ImageFileError in_file)
      | Image data \<Rightarrow>
          if length (pixdim data) \<le> 1 then Inl IndexError
          else
            (let pd = pixdim data ! 1
             in Inr (fmul fmt (round_to fmt stepscale) pd,
                     fmul fmt (round_to fmt (Finite lenscale_min 0)) pd,
                     fmul fmt (round_to fmt (Finite lenscale_max 0)) pd)))"

text \<open>
  The voxel sizes of an image as the NIfTI header defines them (nibabel's
  \<^verbatim>\<open>get_zooms\<close>): \<open>pixdim[1 .. ndim]\<close>; the first of them is the first spatial voxel
  dimension.
\<close>

definition get_zooms :: "nifti \<Rightarrow> fval list" where
  "get_zooms img = take (ndim img) (drop 1 (pixdim img))"

definition first_voxel_dim :: "nifti \<Rightarrow> fval" where
  "first_voxel_dim img = hd (get_zooms img)"

subsection \<open>The tractography workflow\<close>

text \<open>
  The keyword arguments of an interface are kept as they are given; the builders below
  are followed on configurations whose values the interfaces accept.
\<close>

record tract_args =
  tractography_algorithm :: string
  arg_n_tracts :: int
  arg_angle :: int
  stepscale :: real
  lenscale_min :: int
  lenscale_max :: int
  arg_output_dir :: string

definition default_tract_args :: tract_args where
  "default_tract_args =
     \<lparr>tractography_algorithm = ''SD_Stream'', arg_n_tracts = 1000, arg_angle = 45,
      stepscale = 1 / 2, lenscale_min = 30, lenscale_max = 500, arg_output_dir = ''.''\<rparr>"

definition tract_inputnode :: node where
  "tract_inputnode =
     Node ''inputnode''
       (IdentityInterface
          [''dwi_file'', ''dwi_reference'', ''dwi_grad'', ''dwi_mask_file'', ''t1w_file'',
           ''t1w_mask_file''])
       []"

definition tract_outputnode :: node where
  "tract_outputnode = Node ''outputnode'' (IdentityInterface [''tck_file'']) []"

definition dwi2response_node :: node where
  "dwi2response_node =
     Node ''dwi2response''
       (Tool ''ResponseSD''
          [(''algorithm'', PyStr ''dhollander''), (''wm_file'', PyStr ''wm.txt''),
           (''gm_file'', PyStr ''gm.txt''), (''csf_file'', PyStr ''csf.txt''),
           (''voxels_file'', PyStr ''voxels.mif'')])
       []"

definition dwi2fod_node :: node where
  "dwi2fod_node = Node ''dwi2fod'' (Tool ''EstimateFOD'' [(''algorithm'', PyStr ''msmt_csd'')]) []"

definition mtnormalise_node :: node where
  "mtnormalise_node = Node ''mtnormalise'' (Tool ''MTNormalise'' []) []"

definition gen_5tt_node :: node where
  "gen_5tt_node = Node ''gen_5tt'' (Tool ''Generate5tt'' [(''algorithm'', PyStr ''fsl'')]) []"

definition estimate_tracts_parameters_node :: "tract_args \<Rightarrow> node" where
  "estimate_tracts_parameters_node args =
     Node ''estimate_tractography_parameters''
       (Function ''estimate_tractography_parameters''
          [''in_file'', ''stepscale'', ''lenscale_min'', ''lenscale_max'']
          [''stepscale'', ''lenscale_min'', ''lenscale_max''])
       [(''stepscale'', PyFloat (stepscale args)),
        (''lenscale_min'', PyInt (lenscale_min args)),
        (''lenscale_max'', PyInt (lenscale_max args))]"

definition tckgen_node :: "config \<Rightarrow> tract_args \<Rightarrow> node" where
  "tckgen_node cfg args =
     Node ''tckgen''
       (Tool ''Tractography''
          [(''algorithm'', PyStr (tractography_algorithm args)),
           (''select'', n_tracts cfg), (''angle'', angle cfg)])
       []"

definition ds_tracts :: "tract_args \<Rightarrow> node" where
  "ds_tracts args =
     Node ''ds_unfiltered_tracts''
       (Tool ''DerivativesDataSink''
          [(''base_directory'', PyStr (arg_output_dir args)), (''suffix'', PyStr ''tracts''),
           (''extension'', PyStr ''.tck''), (''desc'', PyStr ''unfiltered''),
           (''reconstruction'', PyStr ''mrtrix'')])
       []"

definition tcksift_node :: "(string \<times> pyval) list \<Rightarrow> node" where
  "tcksift_node tcksift_kwargs =
     Node ''tcksift'' (Tool ''TCKSift'' (tcksift_kwargs @ [(''fd_scale_gm'', PyBool True)])) []"

text \<open>The nodes constructed before the first \<^verbatim>\<open>workflow.connect\<close>, in the order of the source.\<close>

definition base_nodes :: "config \<Rightarrow> tract_args \<Rightarrow> node list" where
  "base_nodes cfg args =
     [tract_inputnode, tract_outputnode, dwi2response_node, dwi2fod_node, mtnormalise_node,
      gen_5tt_node, estimate_tracts_parameters_node args, tckgen_node cfg args, ds_tracts args]"

definition base_connections :: "config \<Rightarrow> tract_args \<Rightarrow> connection list" where
  "base_connections cfg args =
     [(tract_inputnode, dwi2response_node,
         [(''dwi_file'', ''in_file''), (''dwi_grad'', ''grad_file''),
          (''dwi_mask_file'', ''in_mask'')]),
      (tract_inputnode, dwi2fod_node,
         [(''dwi_file'', ''in_file''), (''dwi_grad'', ''grad_file''),
          (''dwi_mask_file'', ''in_mask'')]),
      (dwi2response_node, dwi2fod_node,
         [(''wm_file'', ''wm_txt''), (''gm_file'', ''gm_txt''), (''csf_file'', ''csf_txt'')]),
      (dwi2fod_node, mtnormalise_node,
         [(''wm_odf'', ''in_wm_fod''), (''gm_odf'', ''in_gm_fod''),
          (''csf_odf'', ''in_csf_fod'')]),
      (tract_inputnode, mtnormalise_node, [(''dwi_mask_file'', ''in_mask'')]),
      (tract_inputnode, gen_5tt_node,
         [(''t1w_file'', ''in_file''), (''t1w_mask_file'', ''in_mask'')]),
      (mtnormalise_node, tckgen_node cfg args, [(''out_wm_fod'', ''in_file'')]),
      (tract_inputnode, estimate_tracts_parameters_node args, [(''dwi_file'', ''in_file'')]),
      (gen_5tt_node, tckgen_node cfg args, [(''out_file'', ''act_file'')]),
      (estimate_tracts_parameters_node args, tckgen_node cfg args,
         [(''stepscale'', ''step_size''), (''lenscale_min'', ''min_length''),
          (''lenscale_max'', ''max_length'')]),
      (tract_inputnode, tckgen_node cfg args, [(''dwi_mask_file'', ''seed_image'')]),
      (tckgen_node cfg args, tract_outputnode, [(''out_file'', ''tck_file'')]),
      (tckgen_node cfg args, ds_tracts args, [(''out_file'', ''in_file'')]),
      (tract_inputnode, ds_tracts args, [(''dwi_file'', ''source_file'')])]"

definition sift_connections :: "config \<Rightarrow> tract_args \<Rightarrow> node \<Rightarrow> connection list" where
  "sift_connections cfg args sift =
     [(tckgen_node cfg args, sift, [(''out_file'', ''in_tracks'')]),
      (mtnormalise_node, sift, [(''out_wm_fod'', ''in_fod'')]),
      (gen_5tt_node, sift, [(''out_file'', ''act_file'')]),
      (sift, tract_outputnode, [(''out_file'', ''tck_file'')])]"

text \<open>The triple-quoted message of the \<open>ValueError\<close>, with its line breaks and indentation.\<close>

definition sift_error_message :: string where
  "sift_error_message =
     [CHR 0x0A] @ ''                Either sift_term_number or sift_term_ratio must be specified ''
     @ [CHR 0x0A] @ ''                if sift_filtering is set to True.''
     @ [CHR 0x0A] @ ''                ''"

text \<open>
  The termination criterion of the filter: \<^verbatim>\<open>if config.workflow.sift_term_number: ...
  elif config.workflow.sift_term_ratio: ... else: raise ValueError\<close>.
\<close>

definition tcksift_kwargs :: "config \<Rightarrow> error + (string \<times> pyval) list" where
  "tcksift_kwargs cfg =
     (if truthy (sift_term_number cfg) then Inr [(''term_number'', sift_term_number cfg)]
      else if truthy (sift_term_ratio cfg) then Inr [(''term_ratio'', sift_term_ratio cfg)]
      else Inl (ValueError sift_error_message))"

text \<open>
  The builder returns the workflow or raises. The first component of the result lists
  the nodes that have been constructed (the \<^verbatim>\<open>pe.Node(...)\<close> calls executed) when it
  returns or raises, in the order of construction.
\<close>

definition init_mrtrix_tractography_wf ::
  "config \<Rightarrow> string \<Rightarrow> tract_args \<Rightarrow> node list \<times> (error + node)" where
  "init_mrtrix_tractography_wf cfg name args =
     (case connect (Workflow name [] []) (base_connections cfg args) of
        Inl e \<Rightarrow> (base_nodes cfg args, Inl e)
      | Inr workflow \<Rightarrow>
          if truthy (do_sift_filtering cfg) then
            (case tcksift_kwargs cfg of
               Inl e \<Rightarrow> (base_nodes cfg args, Inl e)
             | Inr kwargs \<Rightarrow>
                 (base_nodes cfg args @ [tcksift_node kwargs],
                  connect workflow (sift_connections cfg args (tcksift_node kwargs))))
          else (base_nodes cfg args, Inr workflow))"

definition tractography_inputnode :: node where
  "tractography_inputnode =
     Node ''inputnode''
       (IdentityInterface
          [''base_directory'', ''dwi_reference'', ''dwi_nifti'', ''dwi_bvec'', ''dwi_bval'',
           ''dwi_grad'', ''dwi_mask'', ''t1w_file'', ''t1w_mask_file''])
       []"

definition init_tractography_wf :: "config \<Rightarrow> string \<Rightarrow> error + node" where
  "init_tractography_wf cfg name =
     (case snd (init_mrtrix_tractography_wf cfg ''mrtrix_tractography_wf'' default_tract_args) of
        Inl e \<Rightarrow> Inl e
      | Inr mrtrix3_tractography_wf \<Rightarrow>
          connect (Workflow name [] [])
            [(tractography_inputnode, mrtrix3_tractography_wf,
                [(''dwi_nifti'', ''inputnode.dwi_file''),
                 (''dwi_reference'', ''inputnode.dwi_reference''),
                 (''dwi_grad'', ''inputnode.dwi_grad''),
                 (''dwi_mask'', ''inputnode.dwi_mask_file''),
                 (''t1w_file'', ''inputnode.t1w_file''),
                 (''t1w_mask_file'', ''inputnode.t1w_mask_file'')])])"

text \<open>
  The graph the first \<^verbatim>\<open>workflow.connect\<close> of the tractography builder is shown to
  produce (\<open>base_built\<close> below): the nodes in the order the engine meets them, and the
  edges.
\<close>

definition base_order :: "config \<Rightarrow> tract_args \<Rightarrow> node list" where
  "base_order cfg args =
     [tract_inputnode, dwi2response_node, dwi2fod_node, mtnormalise_node, gen_5tt_node,
      tckgen_node cfg args, estimate_tracts_parameters_node args, tract_outputnode,
      ds_tracts args]"

definition base_edges :: "edge list" where
  "base_edges =
     [(''inputnode'', ''dwi_file'', ''dwi2response'', ''in_file''),
      (''inputnode'', ''dwi_grad'', ''dwi2response'', ''grad_file''),
      (''inputnode'', ''dwi_mask_file'', ''dwi2response'', ''in_mask''),
      (''inputnode'', ''dwi_file'', ''dwi2fod'', ''in_file''),
      (''inputnode'', ''dwi_grad'', ''dwi2fod'', ''grad_file''),
      (''inputnode'', ''dwi_mask_file'', ''dwi2fod'', ''in_mask''),
      (''dwi2response'', ''wm_file'', ''dwi2fod'', ''wm_txt''),
      (''dwi2response'', ''gm_file'', ''dwi2fod'', ''gm_txt''),
      (''dwi2response'', ''csf_file'', ''dwi2fod'', ''csf_txt''),
      (''dwi2fod'', ''wm_odf'', ''mtnormalise'', ''in_wm_fod''),
      (''dwi2fod'', ''gm_odf'', ''mtnormalise'', ''in_gm_fod''),
      (''dwi2fod'', ''csf_odf'', ''mtnormalise'', ''in_csf_fod''),
      (''inputnode'', ''dwi_mask_file'', ''mtnormalise'', ''in_mask''),
      (''inputnode'', ''t1w_file'', ''gen_5tt'', ''in_file''),
      (''inputnode'', ''t1w_mask_file'', ''gen_5tt'', ''in_mask''),
      (''mtnormalise'', ''out_wm_fod'', ''tckgen'', ''in_file''),
      (''inputnode'', ''dwi_file'', ''estimate_tractography_parameters'', ''in_file''),
      (''gen_5tt'', ''out_file'', ''tckgen'', ''act_file''),
      (''estimate_tractography_parameters'', ''stepscale'', ''tckgen'', ''step_size''),
      (''estimate_tractography_parameters'', ''lenscale_min'', ''tckgen'', ''min_length''),
      (''estimate_tractography_parameters'', ''lenscale_max'', ''tckgen'', ''max_length''),
      (''inputnode'', ''dwi_mask_file'', ''tckgen'', ''seed_image''),
      (''tckgen'', ''out_file'', ''outputnode'', ''tck_file''),
      (''tckgen'', ''out_file'', ''ds_unfiltered_tracts'', ''in_file''),
      (''inputnode'', ''dwi_file'', ''ds_unfiltered_tracts'', ''source_file'')]"

section \<open>The cohort and subject builders (workflows/base.py)\<close>

text \<open>
  \<^verbatim>\<open>base.py\<close> calls four parts of the repository that are outside the sources at hand.
  They are parameters of the builders:
  \<^item> \<open>Atlas\<close>: the call \<^verbatim>\<open>Atlas(name, load_existing=True)\<close>; an attribute the object does
    not have is \<open>None\<close>;
  \<^item> \<open>collect_data\<close>: the subject's files and the files of each of its sessions (two
    dictionaries, kept in their order), or the exception it raises;
  \<^item> \<open>init_anatomical_wf\<close> and \<open>init_diffusion_wf\<close>: the anatomical workflow for a name
    and the session workflow for the files of a session.
\<close>

type_synonym pydict = "(string \<times> string) list"

record collaborators =
  Atlas :: "string \<Rightarrow> atlas"
  collect_data :: "string \<Rightarrow> error + (pydict \<times> (string \<times> pydict) list)"
  init_anatomical_wf :: "string \<Rightarrow> node"
  init_diffusion_wf :: "pydict \<Rightarrow> node"

text \<open>
  The builders touch the file system: directories are made, the configuration is
  written beside the logs, the graph of a subject is drawn. The effects are kept, in
  the order they happen. The crash directory copied into the \<open>config\<close> of every node is
  not part of the graph and is left out.
\<close>

record world =
  made_dirs :: "path list"
  written_files :: "path list"
  drawn_graphs :: "string list"

definition bind_error :: "error + 'a \<Rightarrow> ('a \<Rightarrow> error + 'b) \<Rightarrow> error + 'b" where
  "bind_error m f = (case m of Inl e \<Rightarrow> Inl e | Inr x \<Rightarrow> f x)"

definition getattr :: "string \<Rightarrow> 'a option \<Rightarrow> error + 'a" where
  "getattr a v = (case v of None \<Rightarrow> Inl (AttributeError a) | Some x \<Rightarrow> Inr x)"

definition getitem :: "pydict \<Rightarrow> string \<Rightarrow> error + string" where
  "getitem d k = (case map_of d k of None \<Rightarrow> Inl (KeyError k) | Some x \<Rightarrow> Inr x)"

definition subject_fields :: "string list" where
  "subject_fields =
     [''base_directory'', ''anatomical_reference'', ''anatomical_brain_mask'',
      ''mni_to_native_transform'', ''gm_probabilistic_segmentation'', ''atlas_name'',
      ''atlas_nifti'', ''atlas_table'', ''label_column'', ''subject_id'', ''freesurfer_dir'']"

definition path_str :: "path \<Rightarrow> string" where
  "path_str p = concat (map (\<lambda>c. ''/'' @ c) p)"

text \<open>
  The assignments \<^verbatim>\<open>inputnode.inputs.x = ...\<close> of lines 160 to 172, in their order; an
  attribute or a key that is missing raises.
\<close>

definition subject_inputs ::
  "path \<Rightarrow> atlas \<Rightarrow> pydict \<Rightarrow> string \<Rightarrow> path \<Rightarrow> error + (string \<times> pyval) list" where
  "subject_inputs qsipost_dir atlas_object subject_data subject_id freesurfer_dir =
     bind_error (getattr ''atlas_nifti_file'' (atlas_nifti_file atlas_object)) (\<lambda>nifti.
     bind_error (getattr ''description_csv'' (description_csv atlas_object)) (\<lambda>csv.
     bind_error (getattr ''label_name'' (label_name atlas_object)) (\<lambda>label.
     bind_error (getitem subject_data ''anatomical_reference'') (\<lambda>reference.
     bind_error (getitem subject_data ''anatomical_brain_mask'') (\<lambda>mask.
     bind_error (getitem subject_data ''mni_to_native_transform'') (\<lambda>transform.
     bind_error (getitem subject_data ''gm_probabilistic_segmentation'') (\<lambda>gm.
       Inr [(''base_directory'', PyStr (path_str qsipost_dir)),
            (''atlas_name'', PyStr (atlas_name atlas_object)),
            (''atlas_nifti_file'', PyStr nifti),
            (''atlas_table'', PyStr csv),
            (''label_column'', PyStr label),
            (''anatomical_reference'', PyStr reference),
            (''anatomical_brain_mask'', PyStr mask),
            (''mni_to_native_transform'', PyStr transform),
            (''gm_probabilistic_segmentation'', PyStr gm),
            (''subject_id'', PyStr subject_id),
            (''freesurfer_dir'', PyStr (path_str freesurfer_dir))])))))))"

definition inputnode_subject :: "(string \<times> pyval) list \<Rightarrow> node" where
  "inputnode_subject inputs = Node ''inputnode_subject'' (IdentityInterface subject_fields) inputs"

definition anatomical_connections :: "node \<Rightarrow> node \<Rightarrow> connection list" where
  "anatomical_connections inputnode anatomical_workflow =
     [(inputnode, anatomical_workflow,
         [(''base_directory'', ''inputnode.base_directory''),
          (''atlas_name'', ''inputnode.atlas_name''),
          (''atlas_nifti_file'', ''inputnode.atlas_nifti_file''),
          (''anatomical_reference'', ''inputnode.anatomical_reference''),
          (''mni_to_native_transform'', ''inputnode.mni_to_native_transform''),
          (''gm_probabilistic_segmentation'', ''inputnode.gm_probabilistic_segmentation''),
          (''subject_id'', ''inputnode.subject_id''),
          (''freesurfer_dir'', ''inputnode.freesurfer_dir'')])]"

definition session_connections :: "node \<Rightarrow> node \<Rightarrow> node \<Rightarrow> connection list" where
  "session_connections inputnode anatomical_workflow session_workflow =
     [(inputnode, session_workflow,
         [(''base_directory'', ''inputnode.base_directory''),
          (''atlas_name'', ''inputnode.atlas_name''),
          (''anatomical_reference'', ''inputnode.t1w_file''),
          (''anatomical_brain_mask'', ''inputnode.t1w_mask_file'')]),
      (anatomical_workflow, session_workflow,
         [(''outputnode.whole_brain_parcellation'', ''inputnode.whole_brain_t1w_parcellation''),
          (''outputnode.gm_cropped_parcellation'', ''inputnode.gm_cropped_t1w_parcellation'')])]"

text \<open>The loop over \<^verbatim>\<open>sessions_data.values()\<close>.\<close>

fun connect_sessions ::
  "collaborators \<Rightarrow> node \<Rightarrow> node \<Rightarrow> node \<Rightarrow> pydict list \<Rightarrow> error + node" where
  "connect_sessions ext inputnode anatomical_workflow workflow [] = Inr workflow"
| "connect_sessions ext inputnode anatomical_workflow workflow (session_inputs # rest) =
     (case connect workflow
             (session_connections inputnode anatomical_workflow
                (init_diffusion_wf ext session_inputs)) of
        Inl e \<Rightarrow> Inl e
      | Inr workflow' \<Rightarrow> connect_sessions ext inputnode anatomical_workflow workflow' rest)"

definition init_single_subject_wf ::
  "config \<Rightarrow> collaborators \<Rightarrow> string \<Rightarrow> atlas \<Rightarrow> world \<Rightarrow> (error + node) \<times> world" where
  "init_single_subject_wf cfg ext subject_id atlas_object w =
     (case qsiprep_version cfg of
        None \<Rightarrow> (Inl (KeyError ''PipelineDescription''), w)
      | Some qsiprep_ver \<Rightarrow>
          (let name = ''single_subject_'' @ subject_id @ ''_wf'';
               qsipost_dir = output_dir cfg;
               freesurfer_dir = butlast qsipost_dir @ [''freesurfer''];
               w1 = w\<lparr>made_dirs := made_dirs w @ [freesurfer_dir]\<rparr>
           in (bind_error (collect_data ext subject_id) (\<lambda>(subject_data, sessions_data).
               bind_error
                 (subject_inputs qsipost_dir atlas_object subject_data subject_id
                    freesurfer_dir) (\<lambda>inputs.
               bind_error
                 (connect (Workflow name [] [])
                    (anatomical_connections (inputnode_subject inputs)
                       (init_anatomical_wf ext ''anatomical_wf''))) (\<lambda>workflow.
                 if truthy (anat_only cfg) then Inr workflow
                 else connect_sessions ext (inputnode_subject inputs)
                        (init_anatomical_wf ext ''anatomical_wf'') workflow
                        (map snd sessions_data)))),
               w1)))"

definition atlas_error_message :: "string \<Rightarrow> string" where
  "atlas_error_message n =
     ''Could not find the atlas '' @ n @
     '' in the configured atlas directory. Please check the name or initialize a corresponding Atlas object.''"

definition resolve_atlas :: "config \<Rightarrow> collaborators \<Rightarrow> error + atlas" where
  "resolve_atlas cfg ext =
     (case parcellation_atlas cfg of
        AtlasName n \<Rightarrow>
          (if atlas_nifti_file (Atlas ext n) = None
           then Inl (ValueError (atlas_error_message (atlas_name (Atlas ext n))))
           else Inr (Atlas ext n))
      | AtlasObject a \<Rightarrow> Inr a)"

definition root_name :: "config \<Rightarrow> string" where
  "root_name cfg =
     ''qsipost_'' @ show_nat (fst (version cfg)) @ ''_'' @ show_nat (snd (version cfg)) @ ''_wf''"

definition log_dir :: "config \<Rightarrow> string \<Rightarrow> path" where
  "log_dir cfg subject_id = output_dir cfg @ [''sub-'' @ subject_id, ''log'', run_uuid cfg]"

text \<open>The loop over \<^verbatim>\<open>config.execution.participant_label\<close>.\<close>

fun build_subjects ::
  "config \<Rightarrow> collaborators \<Rightarrow> atlas \<Rightarrow> node \<Rightarrow> string list \<Rightarrow> world \<Rightarrow>
   (error + node) \<times> world" where
  "build_subjects cfg ext atlas_object qsipost_wf [] w = (Inr qsipost_wf, w)"
| "build_subjects cfg ext atlas_object qsipost_wf (subject_id # rest) w =
     (case init_single_subject_wf cfg ext subject_id atlas_object w of
        (Inl e, w1) \<Rightarrow> (Inl e, w1)
      | (Inr single_subject_wf, w1) \<Rightarrow>
          (case add_nodes qsipost_wf [single_subject_wf] of
             Inl e \<Rightarrow> (Inl e, w1)
           | Inr qsipost_wf' \<Rightarrow>
               build_subjects cfg ext atlas_object qsipost_wf' rest
                 (w1\<lparr>drawn_graphs :=
                        drawn_graphs w1 @
                        (if truthy (write_graph cfg)
                         then [''single_subject_'' @ subject_id @ ''_wf''] else []),
                      made_dirs := made_dirs w1 @ [log_dir cfg subject_id],
                      written_files :=
                        written_files w1 @ [log_dir cfg subject_id @ [''qsipost.toml'']]\<rparr>)))"

definition init_qsipost_wf :: "config \<Rightarrow> collaborators \<Rightarrow> world \<Rightarrow> (error + node) \<times> world" where
  "init_qsipost_wf cfg ext w =
     (case resolve_atlas cfg ext of
        Inl e \<Rightarrow> (Inl e, w)
      | Inr atlas_object \<Rightarrow>
          build_subjects cfg ext atlas_object (Workflow (root_name cfg) [] [])
            (participant_label cfg) w)"

text \<open>
  What the claims read off a built graph: the subject subgraphs of the root workflow
  (its nested workflows), and the session subgraphs of a subject workflow (its nested
  workflows other than the anatomical one).
\<close>

definition subject_subgraphs :: "node \<Rightarrow> node list" where
  "subject_subgraphs qsipost_wf = filter is_workflow (wf_nodes qsipost_wf)"

definition session_subgraphs :: "node \<Rightarrow> node \<Rightarrow> node list" where
  "session_subgraphs anatomical_workflow subject =
     filter (\<lambda>n. is_workflow n \<and> n \<noteq> anatomical_workflow) (wf_nodes subject)"

text \<open>
  The first \<^verbatim>\<open>workflow.connect\<close> of the subject builder is accepted when the anatomical
  workflow is a workflow, is not named like the subject input node, and offers the eight
  inputs the builder wires.
\<close>

definition anatomical_ports :: "string list" where
  "anatomical_ports =
     [''inputnode.base_directory'', ''inputnode.atlas_name'', ''inputnode.atlas_nifti_file'',
      ''inputnode.anatomical_reference'', ''inputnode.mni_to_native_transform'',
      ''inputnode.gm_probabilistic_segmentation'', ''inputnode.subject_id'',
      ''inputnode.freesurfer_dir'']"

definition anatomical_accepts :: "node \<Rightarrow> bool" where
  "anatomical_accepts anatomical_workflow =
     (is_workflow anatomical_workflow
      \<and> node_name anatomical_workflow \<noteq> ''inputnode_subject''
      \<and> list_all (check_port PortIn anatomical_workflow) anatomical_ports)"

text \<open>The edges the session loop adds for the given session records.\<close>

definition session_edges :: "collaborators \<Rightarrow> node \<Rightarrow> node \<Rightarrow> pydict list \<Rightarrow> edge list" where
  "session_edges ext inp anat ds =
     concat (map (\<lambda>d. concat (map edges_of
                    (session_connections inp anat (init_diffusion_wf ext d)))) ds)"

section \<open>A concrete cohort\<close>

text \<open>
  The inputs at which the builders are evaluated below: the cohort of two subjects, one
  with one session and one with two, that the specification uses as its example. The
  anatomical workflow offers the eight inputs the subject builder wires and the two
  parcellations; a session workflow is named after its session and offers the six
  inputs the subject builder wires.
\<close>

definition example_atlas :: "string \<Rightarrow> atlas" where
  "example_atlas n =
     (if n = ''brainnetome''
      then \<lparr>atlas_name = n, atlas_nifti_file = Some ''/atlases/brainnetome.nii.gz'',
            description_csv = Some ''/atlases/brainnetome.csv'', label_name = Some ''Label''\<rparr>
      else \<lparr>atlas_name = n, atlas_nifti_file = None, description_csv = None,
            label_name = None\<rparr>)"

definition example_subject_data :: pydict where
  "example_subject_data =
     [(''anatomical_reference'', ''T1w.nii.gz''),
      (''anatomical_brain_mask'', ''mask.nii.gz''),
      (''mni_to_native_transform'', ''xfm.h5''),
      (''gm_probabilistic_segmentation'', ''gm.nii.gz'')]"

definition example_collect_data ::
  "string \<Rightarrow> error + (pydict \<times> (string \<times> pydict) list)" where
  "example_collect_data subject_id =
     (if subject_id = ''01''
      then Inr (example_subject_data, [(''ses-1'', [(''session'', ''1'')])])
      else if subject_id = ''02''
      then Inr (example_subject_data,
                [(''ses-1'', [(''session'', ''1'')]), (''ses-2'', [(''session'', ''2'')])])
      else Inl (DiscoveryError subject_id))"

definition example_anatomical_wf :: "string \<Rightarrow> node" where
  "example_anatomical_wf name =
     Workflow name
       [Node ''inputnode''
          (IdentityInterface
             [''base_directory'', ''atlas_name'', ''atlas_nifti_file'', ''anatomical_reference'',
              ''mni_to_native_transform'', ''gm_probabilistic_segmentation'', ''subject_id'',
              ''freesurfer_dir''])
          [],
        Node ''outputnode''
          (IdentityInterface [''whole_brain_parcellation'', ''gm_cropped_parcellation'']) []]
       []"

definition example_diffusion_wf :: "pydict \<Rightarrow> node" where
  "example_diffusion_wf dwi_data =
     Workflow
       (case map_of dwi_data ''session'' of
          None \<Rightarrow> ''diffusion_wf''
        | Some ses \<Rightarrow> ''diffusion_ses_'' @ ses @ ''_wf'')
       [Node ''inputnode''
          (IdentityInterface
             [''base_directory'', ''atlas_name'', ''t1w_file'', ''t1w_mask_file'',
              ''whole_brain_t1w_parcellation'', ''gm_cropped_t1w_parcellation''])
          []]
       []"

definition example_collaborators :: collaborators where
  "example_collaborators =
     \<lparr>Atlas = example_atlas, collect_data = example_collect_data,
      init_anatomical_wf = example_anatomical_wf, init_diffusion_wf = example_diffusion_wf\<rparr>"

definition example_config :: config where
  "example_config =
     \<lparr>parcellation_atlas = AtlasName ''brainnetome'', anat_only = PyBool False,
      version = (0, 1), work_dir = [''work''],
      output_dir = [''data'', ''derivatives'', ''qsipost''],
      participant_label = [''01'', ''02''], run_uuid = ''run1'', write_graph = PyBool True,
      qsiprep_version = Some ''0.19.0'', omp_nthreads = PyInt 1, n_tracts = PyInt 1000,
      angle = PyInt 45, do_sift_filtering = PyBool False, sift_term_number = PyNone,
      sift_term_ratio = PyNone\<rparr>"

definition empty_world :: world where
  "empty_world = \<lparr>made_dirs = [], written_files = [], drawn_graphs = []\<rparr>"

text \<open>
  Stored files: an image with voxels of \<open>2.0\<close> mm (\<open>1 \<times> 2\<^sup>1\<close>), and one with voxels of
  \<open>float32(1.7)\<close> mm, which is \<open>7130317 \<times> 2\<^sup>-\<^sup>2\<^sup>2\<close>. The Python float \<open>0.1\<close> is
  \<open>3602879701896397 \<times> 2\<^sup>-\<^sup>5\<^sup>5\<close>.
\<close>

definition example_images :: "string \<Rightarrow> stored" where
  "example_images f =
     (if f = ''dwi.nii.gz''
      then Image \<lparr>ndim = 4,
                  pixdim = [Finite 1 0, Finite 1 1, Finite 1 1, Finite 1 1, Finite 1 0,
                            Finite 0 0, Finite 0 0, Finite 0 0]\<rparr>
      else if f = ''dwi17.nii.gz''
      then Image \<lparr>ndim = 4,
                  pixdim = [Finite 1 0, Finite 7130317 (- 22), Finite 7130317 (- 22),
                            Finite 7130317 (- 22), Finite 1 0, Finite 0 0, Finite 0 0,
                            Finite 0 0]\<rparr>
      else NoFile)"

definition sift_unset_config :: config where
  "sift_unset_config = example_config\<lparr>do_sift_filtering := PyBool True\<rparr>"

definition sift_both_config :: config where
  "sift_both_config =
     example_config\<lparr>do_sift_filtering := PyBool True, sift_term_number := PyInt 1000,
                    sift_term_ratio := PyFloat (1 / 10)\<rparr>"

definition sift_ratio_config :: config where
  "sift_ratio_config =
     example_config\<lparr>do_sift_filtering := PyBool True, sift_term_ratio := PyFloat (1 / 10)\<rparr>"

definition anat_only_config :: config where
  "anat_only_config = example_config\<lparr>anat_only := PyBool True\<rparr>"

definition unknown_atlas_config :: config where
  "unknown_atlas_config = example_config\<lparr>parcellation_atlas := AtlasName ''aal''\<rparr>"

text \<open>
  The graph the example cohort is expected to give: per subject, the subject input node
  with the values set on it, the anatomical workflow, and one session workflow per
  session; the eight edges into the anatomical workflow, then six edges per session.
\<close>

definition example_inputs :: "string \<Rightarrow> (string \<times> pyval) list" where
  "example_inputs subject_id =
     [(''base_directory'', PyStr ''/data/derivatives/qsipost''),
      (''atlas_name'', PyStr ''brainnetome''),
      (''atlas_nifti_file'', PyStr ''/atlases/brainnetome.nii.gz''),
      (''atlas_table'', PyStr ''/atlases/brainnetome.csv''),
      (''label_column'', PyStr ''Label''),
      (''anatomical_reference'', PyStr ''T1w.nii.gz''),
      (''anatomical_brain_mask'', PyStr ''mask.nii.gz''),
      (''mni_to_native_transform'', PyStr ''xfm.h5''),
      (''gm_probabilistic_segmentation'', PyStr ''gm.nii.gz''),
      (''subject_id'', PyStr subject_id),
      (''freesurfer_dir'', PyStr ''/data/derivatives/freesurfer'')]"

definition example_anatomical_edges :: "edge list" where
  "example_anatomical_edges =
     [(''inputnode_subject'', ''base_directory'', ''anatomical_wf'', ''inputnode.base_directory''),
      (''inputnode_subject'', ''atlas_name'', ''anatomical_wf'', ''inputnode.atlas_name''),
      (''inputnode_subject'', ''atlas_nifti_file'', ''anatomical_wf'',
       ''inputnode.atlas_nifti_file''),
      (''inputnode_subject'', ''anatomical_reference'', ''anatomical_wf'',
       ''inputnode.anatomical_reference''),
      (''inputnode_subject'', ''mni_to_native_transform'', ''anatomical_wf'',
       ''inputnode.mni_to_native_transform''),
      (''inputnode_subject'', ''gm_probabilistic_segmentation'', ''anatomical_wf'',
       ''inputnode.gm_probabilistic_segmentation''),
      (''inputnode_subject'', ''subject_id'', ''anatomical_wf'', ''inputnode.subject_id''),
      (''inputnode_subject'', ''freesurfer_dir'', ''anatomical_wf'', ''inputnode.freesurfer_dir'')]"

definition example_session_edges :: "string \<Rightarrow> edge list" where
  "example_session_edges ses =
     [(''inputnode_subject'', ''base_directory'', ''diffusion_ses_'' @ ses @ ''_wf'',
       ''inputnode.base_directory''),
      (''inputnode_subject'', ''atlas_name'', ''diffusion_ses_'' @ ses @ ''_wf'',
       ''inputnode.atlas_name''),
      (''inputnode_subject'', ''anatomical_reference'', ''diffusion_ses_'' @ ses @ ''_wf'',
       ''inputnode.t1w_file''),
      (''inputnode_subject'', ''anatomical_brain_mask'', ''diffusion_ses_'' @ ses @ ''_wf'',
       ''inputnode.t1w_mask_file''),
      (''anatomical_wf'', ''outputnode.whole_brain_parcellation'',
       ''diffusion_ses_'' @ ses @ ''_wf'', ''inputnode.whole_brain_t1w_parcellation''),
      (''anatomical_wf'', ''outputnode.gm_cropped_parcellation'',
       ''diffusion_ses_'' @ ses @ ''_wf'', ''inputnode.gm_cropped_t1w_parcellation'')]"

definition example_subject_wf :: "string \<Rightarrow> string list \<Rightarrow> node" where
  "example_subject_wf subject_id sessions =
     Workflow (''single_subject_'' @ subject_id @ ''_wf'')
       ([Node ''inputnode_subject'' (IdentityInterface subject_fields)
           (example_inputs subject_id),
         example_anatomical_wf ''anatomical_wf'']
        @ map (\<lambda>ses. example_diffusion_wf [(''session'', ses)]) sessions)
       (example_anatomical_edges @ concat (map example_session_edges sessions))"

definition example_root :: node where
  "example_root =
     Workflow ''qsipost_0_1_wf''
       [example_subject_wf ''01'' [''1''], example_subject_wf ''02'' [''1'', ''2'']] []"

definition example_world :: world where
  "example_world =
     \<lparr>made_dirs =
        [[''data'', ''derivatives'', ''freesurfer''],
         [''data'', ''derivatives'', ''qsipost'', ''sub-01'', ''log'', ''run1''],
         [''data'', ''derivatives'', ''freesurfer''],
         [''data'', ''derivatives'', ''qsipost'', ''sub-02'', ''log'', ''run1'']],
      written_files =
        [[''data'', ''derivatives'', ''qsipost'', ''sub-01'', ''log'', ''run1'', ''qsipost.toml''],
         [''data'', ''derivatives'', ''qsipost'', ''sub-02'', ''log'', ''run1'', ''qsipost.toml'']],
      drawn_graphs = [''single_subject_01_wf'', ''single_subject_02_wf'']\<rparr>"

text \<open>
  A cohort in which the files of the second participant cannot be collected, and the
  world in which its build stops.
\<close>

definition failing_cohort_config :: config where
  "failing_cohort_config = example_config\<lparr>participant_label := [''01'', ''03'', ''02'']\<rparr>"

definition failing_cohort_world :: world where
  "failing_cohort_world =
     \<lparr>made_dirs =
        [[''data'', ''derivatives'', ''freesurfer''],
         [''data'', ''derivatives'', ''qsipost'', ''sub-01'', ''log'', ''run1''],
         [''data'', ''derivatives'', ''freesurfer'']],
      written_files =
        [[''data'', ''derivatives'', ''qsipost'', ''sub-01'', ''log'', ''run1'', ''qsipost.toml'']],
      drawn_graphs = [''single_subject_01_wf'']\<rparr>"


section \<open>Atlas registration: results\<close>

lemma registration_built:
  "init_registration_wf name =
     Inr (Workflow name [registration_inputnode, apply_transforms, registration_outputnode]
       [(''inputnode'', ''atlas_nifti_file'', ''apply_transforms'', ''input_image''),
        (''inputnode'', ''mni_to_native_transform'', ''apply_transforms'', ''transforms''),
        (''inputnode'', ''anatomical_reference'', ''apply_transforms'', ''reference_image''),
        (''apply_transforms'', ''output_image'', ''outputnode'', ''whole_brain_parcellation'')])"
  by (simp add: init_registration_wf_def connect_def registration_inputnode_def
      apply_transforms_def registration_outputnode_def)

text \<open>
  Claim C9. The atlas-registration procedure always applies the template-to-native
  transform to the parcellation image with nearest-neighbour interpolation: for every
  name the workflow is built, its only transform-application node is
  \<open>apply_transforms\<close>, the interpolation parameter of that node is \<open>NearestNeighbor\<close>, its
  input image is the atlas image of the input node and its transform is the
  template-to-native transform.
\<close>

theorem registration_interpolation_nearest_neighbor:
  "\<exists>flow. init_registration_wf name = Inr flow
      \<and> filter (is_tool ''ApplyTransforms'') (wf_nodes flow) = [apply_transforms]
      \<and> node_kwarg flow ''apply_transforms'' ''interpolation'' = Some (PyStr ''NearestNeighbor'')
      \<and> feeding flow ''apply_transforms'' ''input_image'' = [(''inputnode'', ''atlas_nifti_file'')]
      \<and> feeding flow ''apply_transforms'' ''transforms''
          = [(''inputnode'', ''mni_to_native_transform'')]
      \<and> feeding flow ''outputnode'' ''whole_brain_parcellation''
          = [(''apply_transforms'', ''output_image'')]"
  by (simp add: registration_built node_kwarg_def feeding_def registration_inputnode_def
      apply_transforms_def registration_outputnode_def)

section \<open>Tensor estimation: results\<close>

lemma show_nat_digits:
  "show_nat (Suc 0) = ''1''" "show_nat 1 = ''1''" "show_nat 2 = ''2''" "show_nat 3 = ''3''"
  "show_nat 4 = ''4''" "show_nat 5 = ''5''" "show_nat 6 = ''6''" "show_nat 7 = ''7''"
  "show_nat 8 = ''8''" "show_nat 9 = ''9''"
  by (simp_all add: show_nat.simps digit_def)

lemma upt_nine: "[1..<Suc 9] = [1, 2, 3, 4, 5, 6, 7, 8, 9]"
  by (simp add: upt_rec)

lemma length_TENSOR_PARAMETERS: "length TENSOR_PARAMETERS = 9"
  by (simp add: TENSOR_PARAMETERS_def)

lemma merge_ports:
  "map (\<lambda>i. ''in'' @ show_nat i) [1..<Suc 9]
   = [''in1'', ''in2'', ''in3'', ''in4'', ''in5'', ''in6'', ''in7'', ''in8'', ''in9'']"
  unfolding upt_nine by (simp add: show_nat_digits)

lemma merge9_in:
  "has_port PortIn (Merge 9) p
   = (p \<in> set [''in1'', ''in2'', ''in3'', ''in4'', ''in5'', ''in6'', ''in7'', ''in8'', ''in9''])"
  unfolding has_port.simps merge_ports by (rule refl)

lemma merge_pairs:
  "map (\<lambda>(i, param). (param, ''in'' @ show_nat (i + 1))) (enumerate 0 TENSOR_PARAMETERS)
   = [(''adc'', ''in1''), (''fa'', ''in2''), (''ad'', ''in3''), (''rd'', ''in4''),
      (''cl'', ''in5''), (''cp'', ''in6''), (''cs'', ''in7''), (''evec'', ''in8''),
      (''eval'', ''in9'')]"
  by code_simp

lemma metric_pairs:
  "map (\<lambda>param. (''out_'' @ param, param)) TENSOR_PARAMETERS
   = [(''out_adc'', ''adc''), (''out_fa'', ''fa''), (''out_ad'', ''ad''), (''out_rd'', ''rd''),
      (''out_cl'', ''cl''), (''out_cp'', ''cp''), (''out_cs'', ''cs''),
      (''out_evec'', ''evec''), (''out_eval'', ''eval'')]"
  by (simp add: TENSOR_PARAMETERS_def)

lemma tensor_new:
  "new_nodes [] [] (tensor_connections (fit_tensor_node t) entities)
   = [tensor_inputnode, fit_tensor_node t, tensor2metric_wf, tensor_outputnode,
      listify_metrics_wf, ds_tensor_wf entities]"
  by (simp add: tensor_connections_def tensor_inputnode_def fit_tensor_node_def
      tensor2metric_wf_def tensor_outputnode_def listify_metrics_wf_def ds_tensor_wf_def)

lemma tensor_names:
  "check_nodes []
     [tensor_inputnode, fit_tensor_node t, tensor2metric_wf, tensor_outputnode,
      listify_metrics_wf, ds_tensor_wf entities] = None"
  by (simp add: tensor_inputnode_def fit_tensor_node_def
      tensor2metric_wf_def tensor_outputnode_def listify_metrics_wf_def ds_tensor_wf_def)

lemma tensor_checked:
  "check_connections (tensor_connections (fit_tensor_node t) entities) [] [] = Inr []"
  unfolding tensor_connections_def merge_pairs metric_pairs listify_metrics_wf_def
    length_TENSOR_PARAMETERS
  by (simp add: tensor_inputnode_def fit_tensor_node_def
      tensor2metric_wf_def tensor_outputnode_def ds_tensor_wf_def
      TENSOR_PARAMETERS_def)

lemma tensor_edges_eq:
  "concat (map edges_of (tensor_connections (fit_tensor_node t) entities)) = tensor_edges"
  unfolding tensor_connections_def merge_pairs metric_pairs
  by (simp add: tensor_inputnode_def fit_tensor_node_def
      tensor2metric_wf_def tensor_outputnode_def listify_metrics_wf_def ds_tensor_wf_def
      tensor_edges_def)

lemma tensor_built:
  "int_trait (omp_nthreads cfg) \<Longrightarrow>
   init_mrtrix3_tensor_wf cfg entities name
   = Inr (tensor_graph (omp_nthreads cfg) entities name)"
  unfolding init_mrtrix3_tensor_wf_def connect_def tensor_graph_def dwi2tensor_wf_def
  by (simp add: tensor_new tensor_names tensor_checked tensor_edges_eq
      del: check_nodes.simps new_nodes.simps check_connections.simps)

lemma tensor_trait_error:
  "\<not> int_trait (omp_nthreads cfg) \<Longrightarrow>
   init_mrtrix3_tensor_wf cfg entities name = Inl (TraitError ''nthreads'')"
  by (simp add: init_mrtrix3_tensor_wf_def dwi2tensor_wf_def)

lemma tensor_find_listify:
  "find_node ''listify_tensor_params'' (wf_nodes (tensor_graph t entities name))
   = Some (Node ''listify_tensor_params'' (Merge 9) [])"
  unfolding tensor_graph_def listify_metrics_wf_def length_TENSOR_PARAMETERS
  by (simp add: tensor_inputnode_def fit_tensor_node_def tensor2metric_wf_def
      tensor_outputnode_def)

lemma tensor_find_sink:
  "find_node ''ds_tensor_wf'' (wf_nodes (tensor_graph t entities name))
   = Some (ds_tensor_wf entities)"
  unfolding tensor_graph_def
  by (simp add: tensor_inputnode_def fit_tensor_node_def tensor2metric_wf_def
      tensor_outputnode_def listify_metrics_wf_def ds_tensor_wf_def)

lemma tensor_merge_feeding:
  "map (\<lambda>k. feeding (tensor_graph t entities name) ''listify_tensor_params''
              (''in'' @ show_nat k)) [1..<Suc 9]
   = map (\<lambda>p. [(''outputnode'', p)]) TENSOR_PARAMETERS"
  unfolding upt_nine tensor_graph_def
  by (simp add: show_nat_digits feeding_def tensor_edges_def TENSOR_PARAMETERS_def)

lemma tensor_merge_sources:
  "merge_sources (tensor_graph t entities name) ''listify_tensor_params''
   = map (\<lambda>p. (''outputnode'', p)) TENSOR_PARAMETERS"
  unfolding merge_sources_def tensor_find_listify option.case node.case interface.case
    tensor_merge_feeding
  by (simp add: TENSOR_PARAMETERS_def)

lemma tensor_sink_feeding:
  "feeding (tensor_graph t entities name) ''ds_tensor_wf'' ''in_file''
   = [(''listify_tensor_params'', ''out'')]"
  "feeding (tensor_graph t entities name) ''ds_tensor_wf'' ''desc'' = []"
  by (simp_all add: feeding_def tensor_edges_def tensor_graph_def)

lemma tensor_columns:
  "iter_column (tensor_graph t entities name) ''ds_tensor_wf''
     [(''desc'', PyList (map PyStr TENSOR_PARAMETERS))] ''in_file''
   = map (\<lambda>p. From ''outputnode'' p) TENSOR_PARAMETERS"
  "iter_column (tensor_graph t entities name) ''ds_tensor_wf''
     [(''desc'', PyList (map PyStr TENSOR_PARAMETERS))] ''desc''
   = map (\<lambda>p. Given (PyStr p)) TENSOR_PARAMETERS"
  by (simp_all add: iter_column_def tensor_sink_feeding tensor_merge_sources comp_def)

lemma tensor_instances:
  "mapnode_instances (tensor_graph t entities name) ''ds_tensor_wf''
   = map (\<lambda>p. [(''in_file'', From ''outputnode'' p), (''desc'', Given (PyStr p))])
       TENSOR_PARAMETERS"
  unfolding mapnode_instances_def tensor_find_sink ds_tensor_wf_def option.case node.case
    list.map tensor_columns
  by (simp add: lockstep_def TENSOR_PARAMETERS_def upt_rec)

lemma tensor_derived:
  "map (feeding (tensor_graph t entities name) ''outputnode'') TENSOR_PARAMETERS
   = map (\<lambda>p. [(''mrtrix3_tensor2metric_wf'', ''out_'' @ p)]) TENSOR_PARAMETERS"
  by (simp add: feeding_def tensor_edges_def TENSOR_PARAMETERS_def tensor_graph_def)

lemma tensor_metric_kwargs:
  "node_kwargs (tensor_graph t entities name) ''mrtrix3_tensor2metric_wf''
   = map (\<lambda>p. (''out_'' @ p, PyStr (p @ ''.nii.gz''))) TENSOR_PARAMETERS"
  by (simp add: node_kwargs_def tensor_graph_def tensor_inputnode_def fit_tensor_node_def
      tensor2metric_wf_def)

lemma tensor_tools:
  "map node_name (filter (is_tool ''TensorMetrics'') (wf_nodes (tensor_graph t entities name)))
   = [''mrtrix3_tensor2metric_wf'']"
  "map node_name
     (filter (is_tool ''DerivativesDataSink'') (wf_nodes (tensor_graph t entities name)))
   = [''ds_tensor_wf'']"
  by (simp_all add: tensor_graph_def tensor_inputnode_def fit_tensor_node_def
      tensor2metric_wf_def tensor_outputnode_def listify_metrics_wf_def ds_tensor_wf_def)

text \<open>
  Claim C2. The tensor-estimation workflow derives exactly the nine parameters
  \<open>adc, fa, ad, rd, cl, cp, cs, evec, eval\<close>: for a thread count the fitting interface
  accepts the workflow is built, its metrics node is asked for exactly the nine maps
  \<open>out_p = p.nii.gz\<close>, and each parameter \<open>p\<close> reaches the output node from the port
  \<open>out_p\<close> of the metrics node. The one derivative sink is a map node that has one
  instance per parameter, nine in all: the instance that receives the map of \<open>p\<close> as its
  \<open>in_file\<close> has the desc tag \<open>p\<close>, and the tags are distinct. The inputs \<open>in1 .. in9\<close> of
  the fan-in merge node are fed by the parameters in their declared order, so the
  aggregated sequence keeps that order.
\<close>

theorem tensor_fan_out:
  assumes "int_trait (omp_nthreads cfg)"
  shows
  "TENSOR_PARAMETERS = [''adc'', ''fa'', ''ad'', ''rd'', ''cl'', ''cp'', ''cs'', ''evec'', ''eval'']
   \<and> (\<exists>flow. init_mrtrix3_tensor_wf cfg entities name = Inr flow
        \<and> map node_name (filter (is_tool ''TensorMetrics'') (wf_nodes flow))
            = [''mrtrix3_tensor2metric_wf'']
        \<and> node_kwargs flow ''mrtrix3_tensor2metric_wf''
            = map (\<lambda>p. (''out_'' @ p, PyStr (p @ ''.nii.gz''))) TENSOR_PARAMETERS
        \<and> map (feeding flow ''outputnode'') TENSOR_PARAMETERS
            = map (\<lambda>p. [(''mrtrix3_tensor2metric_wf'', ''out_'' @ p)]) TENSOR_PARAMETERS
        \<and> map node_name (filter (is_tool ''DerivativesDataSink'') (wf_nodes flow))
            = [''ds_tensor_wf'']
        \<and> mapnode_instances flow ''ds_tensor_wf''
            = map (\<lambda>p. [(''in_file'', From ''outputnode'' p), (''desc'', Given (PyStr p))])
                TENSOR_PARAMETERS
        \<and> length (mapnode_instances flow ''ds_tensor_wf'') = 9
        \<and> distinct (map (\<lambda>inst. map_of inst ''desc'') (mapnode_instances flow ''ds_tensor_wf''))
        \<and> map (\<lambda>k. feeding flow ''listify_tensor_params'' (''in'' @ show_nat k)) [1..<Suc 9]
            = map (\<lambda>p. [(''outputnode'', p)]) TENSOR_PARAMETERS
        \<and> merge_sources flow ''listify_tensor_params''
            = map (\<lambda>p. (''outputnode'', p)) TENSOR_PARAMETERS)"
proof -
  let ?flow = "tensor_graph (omp_nthreads cfg) entities name"
  have params:
    "TENSOR_PARAMETERS = [''adc'', ''fa'', ''ad'', ''rd'', ''cl'', ''cp'', ''cs'', ''evec'', ''eval'']"
    by (simp add: TENSOR_PARAMETERS_def)
  have built: "init_mrtrix3_tensor_wf cfg entities name = Inr ?flow"
    using assms by (rule tensor_built)
  have nine: "length (mapnode_instances ?flow ''ds_tensor_wf'') = 9"
    unfolding tensor_instances by (simp add: length_TENSOR_PARAMETERS)
  have tags: "distinct (map (\<lambda>inst. map_of inst ''desc'') (mapnode_instances ?flow ''ds_tensor_wf''))"
    unfolding tensor_instances by (simp add: TENSOR_PARAMETERS_def)
  show ?thesis
    by (intro conjI exI [of _ ?flow] params built tensor_tools tensor_metric_kwargs
        tensor_derived tensor_instances nine tags tensor_merge_feeding tensor_merge_sources)
qed

theorem tensor_fan_out_witness:
  "int_trait (omp_nthreads example_config)
   \<and> (\<exists>flow. init_mrtrix3_tensor_wf example_config [] ''mrtrix3_tensor_wf'' = Inr flow
        \<and> mapnode_instances flow ''ds_tensor_wf''
            = map (\<lambda>p. [(''in_file'', From ''outputnode'' p), (''desc'', Given (PyStr p))])
                [''adc'', ''fa'', ''ad'', ''rd'', ''cl'', ''cp'', ''cs'', ''evec'', ''eval''])"
proof -
  have t: "int_trait (omp_nthreads example_config)"
    by (simp add: example_config_def)
  from tensor_fan_out [OF t, of "[]" "''mrtrix3_tensor_wf''"] t show ?thesis
    by auto
qed

section \<open>The parameters of the tractography: results\<close>

text \<open>The real number a finite value stands for, and the form it is kept in.\<close>

lemma dyadic_powr: "dyadic m e = of_int m * 2 powr of_int e"
proof (cases "0 \<le> e")
  case True
  then have "2 powr real_of_int e = 2 ^ nat e"
    by (simp add: powr_real_of_int)
  with True show ?thesis by (simp add: dyadic_def)
next
  case False
  then have "2 powr real_of_int e = inverse (2 ^ nat (- e))"
    by (simp add: powr_real_of_int)
  with False show ?thesis by (simp add: dyadic_def divide_inverse)
qed

lemma dyadic_mult: "dyadic m e * dyadic n f = dyadic (m * n) (e + f)"
  by (simp add: dyadic_powr powr_add)

lemma dyadic_of_int: "dyadic m 0 = of_int m"
  by (simp add: dyadic_def)

lemma normalise_dyadic:
  "normalise m e = (m1, e1) \<Longrightarrow> dyadic m1 e1 = dyadic m e"
proof (induction m e rule: normalise.induct)
  case (1 m e)
  show ?case
  proof (cases "m = 0")
    case True
    with 1 show ?thesis by (simp add: normalise.simps dyadic_powr)
  next
    case False
    show ?thesis
    proof (cases "even m")
      case True
      with False 1 have "dyadic m1 e1 = dyadic (m div 2) (e + 1)"
        by (simp add: normalise.simps)
      also have "\<dots> = of_int (m div 2) * (2 powr of_int e * 2)"
        by (simp add: dyadic_powr powr_add)
      also have "real_of_int (m div 2) = of_int m / 2"
        using True by (simp add: real_of_int_div)
      finally show ?thesis by (simp add: dyadic_powr)
    next
      case odd: False
      with False 1 show ?thesis by (simp add: normalise.simps)
    qed
  qed
qed

lemma normalise_0: "normalise 0 e = (0, 0)"
  by (simp add: normalise.simps)

lemma normalise_zero:
  "normalise m e = (0, e1) \<Longrightarrow> e1 = 0"
proof (induction m e rule: normalise.induct)
  case (1 m e)
  show ?case
  proof (cases "m = 0")
    case True
    with "1.prems" show ?thesis by (simp add: normalise_0)
  next
    case False
    show ?thesis
    proof (cases "even m")
      case True
      with False "1.prems" have "normalise (m div 2) (e + 1) = (0, e1)"
        by (simp add: normalise.simps [of m e])
      from "1.IH" [OF False True this] show ?thesis .
    next
      case odd: False
      with False "1.prems" show ?thesis by (simp add: normalise.simps [of m e])
    qed
  qed
qed

lemma normalise_mult:
  "normalise m e = (m0, e0) \<Longrightarrow> normalise (m0 * n) (e0 + f) = normalise (m * n) (e + f)"
proof (induction m e rule: normalise.induct)
  case (1 m e)
  show ?case
  proof (cases "m = 0")
    case True
    with "1.prems" show ?thesis by (simp add: normalise_0)
  next
    case False
    show ?thesis
    proof (cases "even m")
      case True
      with False "1.prems" have "normalise (m div 2) (e + 1) = (m0, e0)"
        by (simp add: normalise.simps [of m e])
      from "1.IH" [OF False True this]
      have ih: "normalise (m0 * n) (e0 + f) = normalise (m div 2 * n) (e + 1 + f)" .
      show ?thesis
      proof (cases "n = 0")
        case True
        then show ?thesis by (simp add: normalise_0)
      next
        case n: False
        from True have half: "m * n div 2 = m div 2 * n"
          by (auto elim: evenE)
        from True False n have "normalise (m * n) (e + f) = normalise (m * n div 2) (e + f + 1)"
          by (simp add: normalise.simps [of "m * n" "e + f"])
        with ih half show ?thesis by (simp add: add.commute add.left_commute)
      qed
    next
      case odd: False
      with False "1.prems" show ?thesis by (simp add: normalise.simps [of m e])
    qed
  qed
qed

text \<open>Rounding keeps a value of the format.\<close>

lemma round_to_representable:
  assumes "representable fmt (Finite m e)" and "normalise m e = (m1, e1)"
  shows "round_to fmt (Finite m e) = Finite m1 e1"
proof (cases "m1 = 0")
  case True
  with assms(2) normalise_zero have "e1 = 0" by blast
  with True assms(2) show ?thesis
    by (cases fmt) (simp_all add: round_to_def)
next
  case False
  with assms have "bitlen \<bar>m1\<bar> \<le> precision fmt" "qmin fmt \<le> e1"
    "e1 + bitlen \<bar>m1\<bar> - 1 \<le> emax fmt"
    by (simp_all add: representable_def)
  with assms(2) show ?thesis
    by (simp add: round_to_def Let_def)
qed

lemma first_voxel_dim_pixdim:
  "1 \<le> ndim img \<Longrightarrow> 1 < length (pixdim img) \<Longrightarrow> first_voxel_dim img = pixdim img ! 1"
  by (cases "pixdim img"; cases "tl (pixdim img)"; cases "ndim img")
     (auto simp: first_voxel_dim_def get_zooms_def)

text \<open>A product that is a value of the format is returned as it is.\<close>

lemma fmul_exact:
  assumes "representable fmt (Finite m e)"
    and "representable fmt (Finite (m * n) (e + f))"
  shows "\<exists>m1 e1. fmul fmt (round_to fmt (Finite m e)) (Finite n f) = Finite m1 e1
               \<and> dyadic m1 e1 = dyadic m e * dyadic n f"
proof -
  obtain m0 e0 where n0: "normalise m e = (m0, e0)" by (cases "normalise m e")
  have r0: "round_to fmt (Finite m e) = Finite m0 e0"
    using round_to_representable [OF assms(1) n0] .
  have v0: "dyadic m0 e0 = dyadic m e"
    using normalise_dyadic [OF n0] .
  obtain m1 e1 where n1: "normalise (m0 * n) (e0 + f) = (m1, e1)"
    by (cases "normalise (m0 * n) (e0 + f)")
  have "dyadic m1 e1 = dyadic m0 e0 * dyadic n f"
    using normalise_dyadic [OF n1] by (simp only: dyadic_mult)
  then have v1: "dyadic m1 e1 = dyadic m e * dyadic n f"
    by (simp only: v0)
  have "representable fmt (Finite (m0 * n) (e0 + f))"
    using assms(2) by (simp add: representable_def normalise_mult [OF n0])
  from round_to_representable [OF this n1] r0 v1 show ?thesis
    by simp
qed

text \<open>
  Claim C5, as stated, on the image with voxels of \<open>float32(1.7)\<close> mm. With results in
  \<open>Binary32\<close> the default \<open>lenscale_min = 30\<close> gives \<open>51.0\<close>, which is not thirty times
  the voxel size (\<open>51.0000014...\<close>); with results in \<open>Binary64\<close> the step scale \<open>0.1\<close>
  gives a rounded product as well. The returned values are not the real products.
\<close>

theorem tractography_parameters_not_exact:
  "estimate_tractography_parameters Binary32 example_images ''dwi17.nii.gz''
     (Finite 1 (- 1)) 30 500
   = Inr (Finite 7130317 (- 23), Finite 51 0, Finite 425 1)
   \<and> first_voxel_dim \<lparr>ndim = 4,
         pixdim = [Finite 1 0, Finite 7130317 (- 22), Finite 7130317 (- 22),
                   Finite 7130317 (- 22), Finite 1 0, Finite 0 0, Finite 0 0, Finite 0 0]\<rparr>
       = Finite 7130317 (- 22)
   \<and> dyadic 51 0 \<noteq> 30 * dyadic 7130317 (- 22)
   \<and> dyadic 425 1 \<noteq> 500 * dyadic 7130317 (- 22)
   \<and> estimate_tractography_parameters Binary64 example_images ''dwi17.nii.gz''
       (Finite 3602879701896397 (- 55)) 30 500
     = Inr (Finite 6124895665022567 (- 55), Finite 106954755 (- 21), Finite 891289625 (- 20))
   \<and> dyadic 6124895665022567 (- 55)
       \<noteq> dyadic 3602879701896397 (- 55) * dyadic 7130317 (- 22)"
proof -
  have a: "estimate_tractography_parameters Binary32 example_images ''dwi17.nii.gz''
     (Finite 1 (- 1)) 30 500
   = Inr (Finite 7130317 (- 23), Finite 51 0, Finite 425 1)"
    by code_simp
  have b: "first_voxel_dim \<lparr>ndim = 4,
         pixdim = [Finite 1 0, Finite 7130317 (- 22), Finite 7130317 (- 22),
                   Finite 7130317 (- 22), Finite 1 0, Finite 0 0, Finite 0 0, Finite 0 0]\<rparr>
       = Finite 7130317 (- 22)"
    by (simp add: first_voxel_dim_def get_zooms_def)
  have c: "dyadic 51 0 \<noteq> 30 * dyadic 7130317 (- 22)"
    by (simp add: dyadic_def)
  have d: "dyadic 425 1 \<noteq> 500 * dyadic 7130317 (- 22)"
    by (simp add: dyadic_def)
  have e: "estimate_tractography_parameters Binary64 example_images ''dwi17.nii.gz''
       (Finite 3602879701896397 (- 55)) 30 500
     = Inr (Finite 6124895665022567 (- 55), Finite 106954755 (- 21), Finite 891289625 (- 20))"
    by code_simp
  have f: "dyadic 6124895665022567 (- 55)
       \<noteq> dyadic 3602879701896397 (- 55) * dyadic 7130317 (- 22)"
    by (simp add: dyadic_def)
  show ?thesis
    by (intro conjI a b c d e f)
qed

section \<open>Tractography: results\<close>

lemmas tract_node_defs = tract_inputnode_def tract_outputnode_def dwi2response_node_def
  dwi2fod_node_def mtnormalise_node_def gen_5tt_node_def estimate_tracts_parameters_node_def
  tckgen_node_def ds_tracts_def tcksift_node_def

lemma base_new: "new_nodes [] [] (base_connections cfg args) = base_order cfg args"
  by (simp add: base_connections_def base_order_def tract_node_defs)

lemma base_names: "check_nodes [] (base_order cfg args) = None"
  by (simp add: base_order_def tract_node_defs)

lemma base_checked: "check_connections (base_connections cfg args) [] [] = Inr []"
  by (simp add: base_connections_def tract_node_defs)

lemma base_edges_eq: "concat (map edges_of (base_connections cfg args)) = base_edges"
  by (simp add: base_connections_def tract_node_defs base_edges_def)

lemma base_built:
  "connect (Workflow name [] []) (base_connections cfg args)
   = Inr (Workflow name (base_order cfg args) base_edges)"
  unfolding connect_def
  by (simp add: base_new base_names base_checked base_edges_eq
      del: check_nodes.simps new_nodes.simps check_connections.simps)

lemma sift_new:
  "new_nodes (base_order cfg args) [] (sift_connections cfg args (tcksift_node kw))
   = [tcksift_node kw]"
  by (simp add: sift_connections_def base_order_def tract_node_defs)

lemma sift_names:
  "check_nodes (map node_name (base_order cfg args)) [tcksift_node kw] = None"
  by (simp add: base_order_def tract_node_defs)

text \<open>
  The last entry of the second \<^verbatim>\<open>workflow.connect\<close> wires \<open>tcksift.out_file\<close> to
  \<open>outputnode.tck_file\<close>, which the first call has connected to \<open>tckgen.out_file\<close>.
\<close>

lemma sift_checked:
  "check_connections (sift_connections cfg args (tcksift_node kw)) (map edge_dest base_edges) []
   = Inl (AlreadyConnected ''outputnode'' ''tck_file'')"
  by (simp add: sift_connections_def tract_node_defs base_edges_def)

lemma sift_connect:
  "connect (Workflow name (base_order cfg args) base_edges)
     (sift_connections cfg args (tcksift_node kw))
   = Inl (AlreadyConnected ''outputnode'' ''tck_file'')"
  unfolding connect_def
  by (simp add: sift_new sift_names sift_checked
      del: check_nodes.simps new_nodes.simps check_connections.simps)

lemma tract_no_sift:
  "\<not> truthy (do_sift_filtering cfg) \<Longrightarrow>
   init_mrtrix_tractography_wf cfg name args
   = (base_nodes cfg args, Inr (Workflow name (base_order cfg args) base_edges))"
  by (simp add: init_mrtrix_tractography_wf_def base_built)

lemma tract_sift_unset:
  "truthy (do_sift_filtering cfg) \<Longrightarrow> \<not> truthy (sift_term_number cfg) \<Longrightarrow>
   \<not> truthy (sift_term_ratio cfg) \<Longrightarrow>
   init_mrtrix_tractography_wf cfg name args
   = (base_nodes cfg args, Inl (ValueError sift_error_message))"
  by (simp add: init_mrtrix_tractography_wf_def base_built tcksift_kwargs_def)

lemma tract_sift_number:
  "truthy (do_sift_filtering cfg) \<Longrightarrow> truthy (sift_term_number cfg) \<Longrightarrow>
   init_mrtrix_tractography_wf cfg name args
   = (base_nodes cfg args @ [tcksift_node [(''term_number'', sift_term_number cfg)]],
      Inl (AlreadyConnected ''outputnode'' ''tck_file''))"
  by (simp add: init_mrtrix_tractography_wf_def base_built tcksift_kwargs_def sift_connect)

lemma tract_sift_ratio:
  "truthy (do_sift_filtering cfg) \<Longrightarrow> \<not> truthy (sift_term_number cfg) \<Longrightarrow>
   truthy (sift_term_ratio cfg) \<Longrightarrow>
   init_mrtrix_tractography_wf cfg name args
   = (base_nodes cfg args @ [tcksift_node [(''term_ratio'', sift_term_ratio cfg)]],
      Inl (AlreadyConnected ''outputnode'' ''tck_file''))"
  by (simp add: init_mrtrix_tractography_wf_def base_built tcksift_kwargs_def sift_connect)

lemma base_node_names:
  "map node_name (base_nodes cfg args)
   = [''inputnode'', ''outputnode'', ''dwi2response'', ''dwi2fod'', ''mtnormalise'', ''gen_5tt'',
      ''estimate_tractography_parameters'', ''tckgen'', ''ds_unfiltered_tracts'']"
  by (simp add: base_nodes_def tract_node_defs)

lemma sift_unset_config_simps:
  "truthy (do_sift_filtering sift_unset_config)"
  "sift_term_number sift_unset_config = PyNone"
  "sift_term_ratio sift_unset_config = PyNone"
  by (simp_all add: sift_unset_config_def example_config_def)

text \<open>
  Claim C3, as stated: with filtering enabled and neither criterion set, the build fails
  before any node of the tractography workflow is created. The build does fail, but at
  the configuration with \<open>do_sift_filtering = True\<close> and both criteria \<open>None\<close> nine nodes
  have been constructed (and wired) when the error is raised.
\<close>

theorem sift_unset_nodes_created:
  "truthy (do_sift_filtering sift_unset_config)
   \<and> sift_term_number sift_unset_config = PyNone
   \<and> sift_term_ratio sift_unset_config = PyNone
   \<and> snd (init_mrtrix_tractography_wf sift_unset_config ''mrtrix_tractography_wf''
             default_tract_args) = Inl (ValueError sift_error_message)
   \<and> fst (init_mrtrix_tractography_wf sift_unset_config ''mrtrix_tractography_wf''
             default_tract_args) \<noteq> []
   \<and> length (fst (init_mrtrix_tractography_wf sift_unset_config ''mrtrix_tractography_wf''
                     default_tract_args)) = 9"
  by (simp add: tract_sift_unset sift_unset_config_simps) (simp add: base_nodes_def)

text \<open>
  Claim C3, amended. When the tractography workflow is built with filtering enabled and
  neither \<open>sift_term_number\<close> nor \<open>sift_term_ratio\<close> set, the build fails with a
  \<open>ValueError\<close> and returns no workflow; the error is raised after the nine unconditional
  nodes have been constructed and before the filter node is.
\<close>

theorem sift_unset_fails_after_base_nodes:
  assumes "truthy (do_sift_filtering cfg)"
    and "sift_term_number cfg = PyNone" and "sift_term_ratio cfg = PyNone"
  shows "init_mrtrix_tractography_wf cfg name args
           = (base_nodes cfg args, Inl (ValueError sift_error_message))
         \<and> map node_name (fst (init_mrtrix_tractography_wf cfg name args))
           = [''inputnode'', ''outputnode'', ''dwi2response'', ''dwi2fod'', ''mtnormalise'',
              ''gen_5tt'', ''estimate_tractography_parameters'', ''tckgen'',
              ''ds_unfiltered_tracts'']"
  using assms by (simp add: tract_sift_unset base_node_names)

theorem sift_unset_fails_witness:
  "truthy (do_sift_filtering sift_unset_config)
   \<and> sift_term_number sift_unset_config = PyNone
   \<and> sift_term_ratio sift_unset_config = PyNone
   \<and> init_mrtrix_tractography_wf sift_unset_config ''mrtrix_tractography_wf'' default_tract_args
       = (base_nodes sift_unset_config default_tract_args, Inl (ValueError sift_error_message))"
  using sift_unset_fails_after_base_nodes
      [of sift_unset_config "''mrtrix_tractography_wf''" default_tract_args]
  by (simp add: sift_unset_config_simps)

text \<open>
  Claim C10, evaluated at \<open>do_sift_filtering = True\<close>, \<open>sift_term_number = 1000\<close>,
  \<open>sift_term_ratio = 0.1\<close>. The filter node is constructed with \<open>term_number\<close> only, as
  the claim says, but the build does not succeed: the connect call that follows raises,
  because \<open>outputnode.tck_file\<close> is already connected.
\<close>

theorem sift_both_set_build_fails:
  "init_mrtrix_tractography_wf sift_both_config ''mrtrix_tractography_wf'' default_tract_args
   = (base_nodes sift_both_config default_tract_args
        @ [Node ''tcksift''
             (Tool ''TCKSift'' [(''term_number'', PyInt 1000), (''fd_scale_gm'', PyBool True)])
             []],
      Inl (AlreadyConnected ''outputnode'' ''tck_file''))"
proof -
  have "truthy (do_sift_filtering sift_both_config)"
    and "truthy (sift_term_number sift_both_config)"
    and "sift_term_number sift_both_config = PyInt 1000"
    by (simp_all add: sift_both_config_def example_config_def)
  then show ?thesis
    by (simp add: tract_sift_number tcksift_node_def)
qed

lemma tractography_wrapper:
  "\<not> truthy (do_sift_filtering cfg) \<Longrightarrow>
   \<exists>flow. init_tractography_wf cfg name = Inr flow
     \<and> map node_name (wf_nodes flow) = [''inputnode'', ''mrtrix_tractography_wf'']
     \<and> length (wf_edges flow) = 6"
  by (simp add: init_tractography_wf_def tract_no_sift connect_def tractography_inputnode_def
      base_order_def tract_node_defs base_edges_def)

text \<open>
  Property X1. Without filtering the tractography builder returns its workflow: nine
  nodes, twenty-five edges, the output \<open>tck_file\<close> fed by \<open>tckgen.out_file\<close>, and the three
  normalised parameters wired to the step size and the length bounds of \<open>tckgen\<close>.
\<close>

theorem tractography_without_filtering_builds:
  assumes "\<not> truthy (do_sift_filtering cfg)"
  shows "\<exists>flow. init_mrtrix_tractography_wf cfg name args = (base_nodes cfg args, Inr flow)
           \<and> set (wf_nodes flow) = set (base_nodes cfg args)
           \<and> length (wf_nodes flow) = 9
           \<and> length (wf_edges flow) = 25
           \<and> feeding flow ''outputnode'' ''tck_file'' = [(''tckgen'', ''out_file'')]
           \<and> map (feeding flow ''tckgen'') [''step_size'', ''min_length'', ''max_length'']
               = [[(''estimate_tractography_parameters'', ''stepscale'')],
                  [(''estimate_tractography_parameters'', ''lenscale_min'')],
                  [(''estimate_tractography_parameters'', ''lenscale_max'')]]"
proof -
  let ?flow = "Workflow name (base_order cfg args) base_edges"
  have built: "init_mrtrix_tractography_wf cfg name args = (base_nodes cfg args, Inr ?flow)"
    using assms by (rule tract_no_sift)
  have nodes: "set (wf_nodes ?flow) = set (base_nodes cfg args)"
    by (auto simp add: base_order_def base_nodes_def)
  have nine: "length (wf_nodes ?flow) = 9"
    by (simp add: base_order_def)
  have edges: "length (wf_edges ?flow) = 25"
    by (simp add: base_edges_def)
  have out: "feeding ?flow ''outputnode'' ''tck_file'' = [(''tckgen'', ''out_file'')]"
    by (simp add: feeding_def base_edges_def)
  have params:
    "map (feeding ?flow ''tckgen'') [''step_size'', ''min_length'', ''max_length'']
     = [[(''estimate_tractography_parameters'', ''stepscale'')],
        [(''estimate_tractography_parameters'', ''lenscale_min'')],
        [(''estimate_tractography_parameters'', ''lenscale_max'')]]"
    by (simp add: feeding_def base_edges_def)
  show ?thesis
    by (intro exI [of _ ?flow] conjI built nodes nine edges out params)
qed

theorem tractography_without_filtering_witness:
  "\<not> truthy (do_sift_filtering example_config)
   \<and> (\<exists>flow. init_mrtrix_tractography_wf example_config ''mrtrix_tractography_wf''
                default_tract_args
              = (base_nodes example_config default_tract_args, Inr flow)
            \<and> length (wf_nodes flow) = 9)"
  using tractography_without_filtering_builds
      [of example_config "''mrtrix_tractography_wf''" default_tract_args]
  by (auto simp add: example_config_def)

text \<open>
  Property X2. With filtering enabled the tractography builder raises for every
  configuration: a \<open>ValueError\<close> when neither criterion is truthy, and otherwise the
  engine's error for the second connection into \<open>outputnode.tck_file\<close>.
\<close>

theorem filtering_build_always_raises:
  assumes "truthy (do_sift_filtering cfg)"
  shows "snd (init_mrtrix_tractography_wf cfg name args) = Inl (ValueError sift_error_message)
         \<or> snd (init_mrtrix_tractography_wf cfg name args)
            = Inl (AlreadyConnected ''outputnode'' ''tck_file'')"
proof (cases "truthy (sift_term_number cfg)")
  case True
  with assms show ?thesis by (simp add: tract_sift_number)
next
  case False
  with assms show ?thesis
    by (cases "truthy (sift_term_ratio cfg)") (simp_all add: tract_sift_ratio tract_sift_unset)
qed

theorem filtering_build_raises_witness:
  "truthy (do_sift_filtering sift_ratio_config)
   \<and> snd (init_mrtrix_tractography_wf sift_ratio_config ''mrtrix_tractography_wf''
             default_tract_args) = Inl (AlreadyConnected ''outputnode'' ''tck_file'')"
proof -
  have cfg: "truthy (do_sift_filtering sift_ratio_config)"
    "\<not> truthy (sift_term_number sift_ratio_config)"
    "truthy (sift_term_ratio sift_ratio_config)"
    by (simp_all add: sift_ratio_config_def example_config_def)
  have "snd (init_mrtrix_tractography_wf sift_ratio_config ''mrtrix_tractography_wf''
               default_tract_args) \<noteq> Inl (ValueError sift_error_message)"
    using cfg by (simp add: tract_sift_ratio)
  with cfg(1) filtering_build_always_raises
         [of sift_ratio_config "''mrtrix_tractography_wf''" default_tract_args]
  show ?thesis by blast
qed

section \<open>The cohort and subject builders: results\<close>

text \<open>
  Facts about \<^verbatim>\<open>Workflow.connect\<close> that hold for every call: what an accepted call adds,
  and that no destination port ever has two incoming edges.
\<close>

lemma connect_Inr:
  assumes "connect flow conns = Inr flow'"
  shows "flow' = Workflow (node_name flow)
                   (wf_nodes flow @ new_nodes (wf_nodes flow) [] conns)
                   (wf_edges flow @ concat (map edges_of conns))"
    and "check_nodes (map node_name (wf_nodes flow)) (new_nodes (wf_nodes flow) [] conns) = None"
    and "check_connections conns (map edge_dest (wf_edges flow)) [] = Inr []"
  using assms
  by (auto simp: connect_def Let_def split: option.splits sum.splits if_splits)

lemma check_connects_taken:
  "check_connects s d ps taken nf = Inr (taken', nf') \<Longrightarrow>
   taken' = taken @ map (\<lambda>(sp, dp). (node_name d, dp)) ps"
proof (induction ps arbitrary: taken nf)
  case Nil
  then show ?case by simp
next
  case (Cons p ps)
  obtain sp dp where p: "p = (sp, dp)" by (cases p)
  from Cons.prems p have
    "check_connects s d ps (taken @ [(node_name d, dp)])
       (nf @ (if check_port PortIn d dp then [] else [(PortIn, node_name d, dp)])
           @ (if check_port PortOut s sp then [] else [(PortOut, node_name s, sp)]))
     = Inr (taken', nf')"
    by (simp split: if_splits)
  from Cons.IH [OF this] p show ?case by simp
qed

lemma check_connects_distinct:
  "check_connects s d ps taken nf = Inr (taken', nf') \<Longrightarrow> distinct taken \<Longrightarrow>
   distinct taken'"
proof (induction ps arbitrary: taken nf)
  case Nil
  then show ?case by simp
next
  case (Cons p ps)
  obtain sp dp where p: "p = (sp, dp)" by (cases p)
  from Cons.prems(1) p have fresh: "(node_name d, dp) \<notin> set taken"
    by (auto split: if_splits)
  with Cons.prems(1) p have step:
    "check_connects s d ps (taken @ [(node_name d, dp)])
       (nf @ (if check_port PortIn d dp then [] else [(PortIn, node_name d, dp)])
           @ (if check_port PortOut s sp then [] else [(PortOut, node_name s, sp)]))
     = Inr (taken', nf')"
    by simp
  from fresh Cons.prems(2) have "distinct (taken @ [(node_name d, dp)])"
    by simp
  from Cons.IH [OF step this] show ?case .
qed

lemma edge_dest_edges_of:
  "map edge_dest (edges_of (s, d, ps)) = map (\<lambda>(sp, dp). (node_name d, dp)) ps"
  by (induction ps) auto

lemma check_connections_taken:
  "check_connections conns taken nf = Inr nf' \<Longrightarrow> distinct taken \<Longrightarrow>
   distinct (taken @ map edge_dest (concat (map edges_of conns)))"
proof (induction conns arbitrary: taken nf)
  case Nil
  then show ?case by simp
next
  case (Cons c conns)
  obtain s d ps where c: "c = (s, d, ps)" by (cases c)
  from Cons.prems(1) c obtain taken1 nf1 where
    step: "check_connects s d ps taken nf = Inr (taken1, nf1)"
    and rest: "check_connections conns taken1 nf1 = Inr nf'"
    by (auto split: sum.splits)
  have t1: "taken1 = taken @ map edge_dest (edges_of (s, d, ps))"
    using check_connects_taken [OF step] by (simp only: edge_dest_edges_of)
  have d1: "distinct taken1"
    using check_connects_distinct [OF step Cons.prems(2)] .
  from Cons.IH [OF rest d1] show ?case
    unfolding c t1 by (simp del: edges_of.simps)
qed

lemma connect_distinct:
  assumes "connect flow conns = Inr flow'" and "distinct (map edge_dest (wf_edges flow))"
  shows "distinct (map edge_dest (wf_edges flow'))"
  using check_connections_taken [OF connect_Inr(3) [OF assms(1)] assms(2)]
  by (simp add: connect_Inr(1) [OF assms(1)])

lemma feeding_singleton:
  assumes "distinct (map edge_dest (wf_edges flow))" and "(s, sp, d, dp) \<in> set (wf_edges flow)"
  shows "feeding flow d dp = [(s, sp)]"
proof -
  have "distinct (map edge_dest es) \<Longrightarrow> (s, sp, d, dp) \<in> set es \<Longrightarrow>
        map (\<lambda>(s, sp, t, tp). (s, sp)) (filter (\<lambda>(s, sp, t, tp). t = d \<and> tp = dp) es) = [(s, sp)]"
    for es
  proof (induction es)
    case Nil
    then show ?case by simp
  next
    case (Cons e es)
    obtain a ap b bp where e: "e = (a, ap, b, bp)" by (cases e)
    show ?case
    proof (cases "e = (s, sp, d, dp)")
      case True
      with Cons.prems(1) have "\<forall>x \<in> set es. edge_dest x \<noteq> (d, dp)"
        by (auto simp: image_iff)
      then have "filter (\<lambda>(s, sp, t, tp). t = d \<and> tp = dp) es = []"
        by (auto simp: filter_empty_conv)
      with True show ?thesis by simp
    next
      case False
      with Cons.prems have mem: "(s, sp, d, dp) \<in> set es" by auto
      then have "(d, dp) \<in> edge_dest ` set es" by force
      with Cons.prems(1) e have "(b, bp) \<noteq> (d, dp)" by auto
      with Cons.IH [OF _ mem] Cons.prems(1) e show ?thesis by auto
    qed
  qed
  with assms show ?thesis by (simp add: feeding_def)
qed

text \<open>The first \<^verbatim>\<open>workflow.connect\<close> of the subject builder.\<close>

lemma anatomical_accepted:
  assumes "anatomical_accepts anat"
  shows "connect (Workflow n [] []) (anatomical_connections (inputnode_subject inputs) anat)
         = Inr (Workflow n [inputnode_subject inputs, anat]
                  (concat (map edges_of (anatomical_connections (inputnode_subject inputs) anat))))"
proof -
  from assms have wf: "is_workflow anat" and nm: "node_name anat \<noteq> ''inputnode_subject''"
    and ports: "list_all (check_port PortIn anat) anatomical_ports"
    by (simp_all add: anatomical_accepts_def)
  from wf have ne: "inputnode_subject inputs \<noteq> anat"
    by (auto simp: inputnode_subject_def)
  have new: "new_nodes [] [] (anatomical_connections (inputnode_subject inputs) anat)
             = [inputnode_subject inputs, anat]"
    using ne by (simp add: anatomical_connections_def)
  have names: "check_nodes [] [inputnode_subject inputs, anat] = None"
    using nm by (simp add: inputnode_subject_def)
  have src: "check_port PortOut (inputnode_subject inputs) p" for p
    by (simp add: inputnode_subject_def)
  have checked:
    "check_connections (anatomical_connections (inputnode_subject inputs) anat) [] [] = Inr []"
    using ports by (simp add: anatomical_connections_def anatomical_ports_def src
        del: check_port.simps)
  show ?thesis
    unfolding connect_def
    by (simp add: new names checked
        del: check_nodes.simps new_nodes.simps check_connections.simps edges_of.simps)
qed

lemma anatomical_edges:
  "concat (map edges_of (anatomical_connections (inputnode_subject inputs) anat))
   = map (\<lambda>(sp, dp). (''inputnode_subject'', sp, node_name anat, dp))
       [(''base_directory'', ''inputnode.base_directory''),
        (''atlas_name'', ''inputnode.atlas_name''),
        (''atlas_nifti_file'', ''inputnode.atlas_nifti_file''),
        (''anatomical_reference'', ''inputnode.anatomical_reference''),
        (''mni_to_native_transform'', ''inputnode.mni_to_native_transform''),
        (''gm_probabilistic_segmentation'', ''inputnode.gm_probabilistic_segmentation''),
        (''subject_id'', ''inputnode.subject_id''),
        (''freesurfer_dir'', ''inputnode.freesurfer_dir'')]"
  by (simp add: anatomical_connections_def inputnode_subject_def)

text \<open>One pass of the session loop.\<close>

lemma session_step:
  assumes ok: "connect flow (session_connections inp anat x) = Inr flow'"
    and inp: "inp \<in> set (wf_nodes flow)" and anat: "anat \<in> set (wf_nodes flow)"
    and x: "is_workflow x"
    and marked: "\<forall>y \<in> set (wf_nodes flow). is_workflow y \<longrightarrow>
                   (node_name y, ''inputnode.base_directory'') \<in> set (map edge_dest (wf_edges flow))"
  shows "x \<notin> set (wf_nodes flow)"
    and "wf_nodes flow' = wf_nodes flow @ [x]"
    and "wf_edges flow' = wf_edges flow @ concat (map edges_of (session_connections inp anat x))"
    and "node_name flow' = node_name flow"
proof -
  show fresh: "x \<notin> set (wf_nodes flow)"
  proof
    assume "x \<in> set (wf_nodes flow)"
    with marked x have
      "(node_name x, ''inputnode.base_directory'') \<in> set (map edge_dest (wf_edges flow))"
      by blast
    then have "check_connections (session_connections inp anat x)
                 (map edge_dest (wf_edges flow)) []
               = Inl (AlreadyConnected (node_name x) ''inputnode.base_directory'')"
      by (simp add: session_connections_def)
    with connect_Inr(3) [OF ok] show False by simp
  qed
  have new: "new_nodes (wf_nodes flow) [] (session_connections inp anat x) = [x]"
    using inp anat fresh by (simp add: session_connections_def)
  from connect_Inr(1) [OF ok] new
  show "wf_nodes flow' = wf_nodes flow @ [x]"
    and "wf_edges flow' = wf_edges flow @ concat (map edges_of (session_connections inp anat x))"
    and "node_name flow' = node_name flow"
    by simp_all
qed

text \<open>The whole session loop: what it adds when it returns.\<close>

lemma session_loop:
  assumes "connect_sessions ext inp anat flow ds = Inr flow'"
    and "inp \<in> set (wf_nodes flow)" and "anat \<in> set (wf_nodes flow)"
    and "\<forall>d. is_workflow (init_diffusion_wf ext d)"
    and "\<forall>y \<in> set (wf_nodes flow). is_workflow y \<longrightarrow>
           (node_name y, ''inputnode.base_directory'') \<in> set (map edge_dest (wf_edges flow))"
    and "distinct (wf_nodes flow)"
    and "distinct (map edge_dest (wf_edges flow))"
  shows "wf_nodes flow' = wf_nodes flow @ map (init_diffusion_wf ext) ds
         \<and> wf_edges flow' = wf_edges flow @ session_edges ext inp anat ds
         \<and> node_name flow' = node_name flow
         \<and> distinct (wf_nodes flow')
         \<and> distinct (map edge_dest (wf_edges flow'))"
  using assms
proof (induction ds arbitrary: flow)
  case Nil
  then show ?case by (simp add: session_edges_def)
next
  case (Cons d ds)
  let ?x = "init_diffusion_wf ext d"
  from Cons.prems(1) obtain flow1 where
    step: "connect flow (session_connections inp anat ?x) = Inr flow1"
    and rest: "connect_sessions ext inp anat flow1 ds = Inr flow'"
    by (auto split: sum.splits)
  from Cons.prems(4) have x: "is_workflow ?x" by simp
  note s = session_step [OF step Cons.prems(2) Cons.prems(3) x Cons.prems(5)]
  have inp1: "inp \<in> set (wf_nodes flow1)" and anat1: "anat \<in> set (wf_nodes flow1)"
    using s(2) Cons.prems(2,3) by simp_all
  have marked1: "\<forall>y \<in> set (wf_nodes flow1). is_workflow y \<longrightarrow>
       (node_name y, ''inputnode.base_directory'') \<in> set (map edge_dest (wf_edges flow1))"
    using Cons.prems(5) s(2,3) by (auto simp: session_connections_def)
  have dn1: "distinct (wf_nodes flow1)"
    using s(1,2) Cons.prems(6) by simp
  have de1: "distinct (map edge_dest (wf_edges flow1))"
    using connect_distinct [OF step Cons.prems(7)] .
  from Cons.IH [OF rest inp1 anat1 Cons.prems(4) marked1 dn1 de1]
  have ih: "wf_nodes flow' = wf_nodes flow1 @ map (init_diffusion_wf ext) ds"
    "wf_edges flow' = wf_edges flow1 @ session_edges ext inp anat ds"
    "node_name flow' = node_name flow1"
    "distinct (wf_nodes flow')"
    "distinct (map edge_dest (wf_edges flow'))"
    by blast+
  have "wf_nodes flow' = wf_nodes flow @ map (init_diffusion_wf ext) (d # ds)"
    using ih(1) s(2) by simp
  moreover have "wf_edges flow' = wf_edges flow @ session_edges ext inp anat (d # ds)"
    using ih(2) s(3) by (simp add: session_edges_def)
  moreover have "node_name flow' = node_name flow"
    using ih(3) s(4) by simp
  ultimately show ?case
    using ih(4,5) by blast
qed

lemma inputnode_not_workflow:
  "is_workflow x \<Longrightarrow> inputnode_subject inputs \<noteq> x"
  by (auto simp: inputnode_subject_def)

lemma first_connect_shape:
  assumes ok: "connect (Workflow n [] []) (anatomical_connections (inputnode_subject inputs) anat)
               = Inr flow0"
    and anat: "is_workflow anat"
  shows "flow0 = Workflow n [inputnode_subject inputs, anat]
                   (concat (map edges_of (anatomical_connections (inputnode_subject inputs) anat)))"
proof -
  have ne: "inputnode_subject inputs \<noteq> anat"
    using inputnode_not_workflow [OF anat] .
  have new: "new_nodes [] [] (anatomical_connections (inputnode_subject inputs) anat)
             = [inputnode_subject inputs, anat]"
    using ne by (simp add: anatomical_connections_def)
  from connect_Inr(1) [OF ok] new show ?thesis by simp
qed

lemma subject_steps:
  assumes ok: "fst (init_single_subject_wf cfg ext s a w) = Inr sub"
  shows "\<exists>subject_data sessions inputs flow0.
           collect_data ext s = Inr (subject_data, sessions)
         \<and> subject_inputs (output_dir cfg) a subject_data s
              (butlast (output_dir cfg) @ [''freesurfer'']) = Inr inputs
         \<and> connect (Workflow (''single_subject_'' @ s @ ''_wf'') [] [])
              (anatomical_connections (inputnode_subject inputs)
                 (init_anatomical_wf ext ''anatomical_wf'')) = Inr flow0
         \<and> (if truthy (anat_only cfg) then sub = flow0
             else connect_sessions ext (inputnode_subject inputs)
                    (init_anatomical_wf ext ''anatomical_wf'') flow0 (map snd sessions) = Inr sub)"
  using ok
  by (auto simp: init_single_subject_wf_def bind_error_def Let_def
      split: option.splits sum.splits prod.splits if_splits)

lemma subject_shape:
  assumes ok: "fst (init_single_subject_wf cfg ext s a w) = Inr sub"
    and anat: "is_workflow (init_anatomical_wf ext ''anatomical_wf'')"
    and dwi: "\<forall>d. is_workflow (init_diffusion_wf ext d)"
  shows "\<exists>subject_data sessions inputs.
           collect_data ext s = Inr (subject_data, sessions)
         \<and> subject_inputs (output_dir cfg) a subject_data s
              (butlast (output_dir cfg) @ [''freesurfer'']) = Inr inputs
         \<and> node_name sub = ''single_subject_'' @ s @ ''_wf''
         \<and> wf_nodes sub =
              [inputnode_subject inputs, init_anatomical_wf ext ''anatomical_wf'']
              @ (if truthy (anat_only cfg) then []
                 else map (init_diffusion_wf ext) (map snd sessions))
         \<and> wf_edges sub =
              concat (map edges_of (anatomical_connections (inputnode_subject inputs)
                                      (init_anatomical_wf ext ''anatomical_wf'')))
              @ (if truthy (anat_only cfg) then []
                 else session_edges ext (inputnode_subject inputs)
                        (init_anatomical_wf ext ''anatomical_wf'') (map snd sessions))
         \<and> distinct (wf_nodes sub)
         \<and> distinct (map edge_dest (wf_edges sub))"
proof -
  let ?anat = "init_anatomical_wf ext ''anatomical_wf''"
  let ?name = "''single_subject_'' @ s @ ''_wf''"
  from subject_steps [OF ok] obtain subject_data sessions inputs flow0 where
    cd: "collect_data ext s = Inr (subject_data, sessions)"
    and si: "subject_inputs (output_dir cfg) a subject_data s
               (butlast (output_dir cfg) @ [''freesurfer'']) = Inr inputs"
    and c0: "connect (Workflow ?name [] [])
               (anatomical_connections (inputnode_subject inputs) ?anat) = Inr flow0"
    and rest: "if truthy (anat_only cfg) then sub = flow0
               else connect_sessions ext (inputnode_subject inputs) ?anat flow0
                      (map snd sessions) = Inr sub"
    by blast
  let ?inp = "inputnode_subject inputs"
  let ?e0 = "concat (map edges_of (anatomical_connections ?inp ?anat))"
  have f0: "flow0 = Workflow ?name [?inp, ?anat] ?e0"
    using first_connect_shape [OF c0 anat] .
  have ne: "?inp \<noteq> ?anat"
    using inputnode_not_workflow [OF anat] .
  have dn0: "distinct (wf_nodes flow0)"
    using ne by (simp add: f0)
  have de0: "distinct (map edge_dest (wf_edges flow0))"
    using connect_distinct [OF c0] by simp
  have marked0: "\<forall>y \<in> set (wf_nodes flow0). is_workflow y \<longrightarrow>
       (node_name y, ''inputnode.base_directory'') \<in> set (map edge_dest (wf_edges flow0))"
    unfolding f0 by (simp add: anatomical_connections_def inputnode_subject_def)
  show ?thesis
  proof (cases "truthy (anat_only cfg)")
    case True
    with rest have "sub = flow0" by simp
    with cd si f0 dn0 de0 True show ?thesis
      by (intro exI [of _ subject_data] exI [of _ sessions] exI [of _ inputs]) simp
  next
    case False
    with rest have loop: "connect_sessions ext ?inp ?anat flow0 (map snd sessions) = Inr sub"
      by simp
    have inp0: "?inp \<in> set (wf_nodes flow0)" and anat0: "?anat \<in> set (wf_nodes flow0)"
      by (simp_all add: f0)
    note l = session_loop [OF loop inp0 anat0 dwi marked0 dn0 de0]
    have "node_name sub = ?name" using l by (simp add: f0)
    moreover have "wf_nodes sub = [?inp, ?anat] @ map (init_diffusion_wf ext) (map snd sessions)"
      using l by (simp add: f0)
    moreover have "wf_edges sub = ?e0 @ session_edges ext ?inp ?anat (map snd sessions)"
      using l by (simp add: f0)
    moreover have "distinct (wf_nodes sub)" "distinct (map edge_dest (wf_edges sub))"
      using l by blast+
    ultimately show ?thesis
      using cd si False
      by (intro exI [of _ subject_data] exI [of _ sessions] exI [of _ inputs]) simp
  qed
qed

lemma session_edges_parcellations:
  assumes "d \<in> set ds"
  shows "(node_name anat, ''outputnode.whole_brain_parcellation'',
          node_name (init_diffusion_wf ext d), ''inputnode.whole_brain_t1w_parcellation'')
           \<in> set (session_edges ext inp anat ds)"
    and "(node_name anat, ''outputnode.gm_cropped_parcellation'',
          node_name (init_diffusion_wf ext d), ''inputnode.gm_cropped_t1w_parcellation'')
           \<in> set (session_edges ext inp anat ds)"
  using assms by (auto simp: session_edges_def session_connections_def)

lemma subject_sessions:
  assumes ok: "fst (init_single_subject_wf cfg ext s a w) = Inr sub"
    and full: "\<not> truthy (anat_only cfg)"
    and anat: "is_workflow (init_anatomical_wf ext ''anatomical_wf'')"
    and dwi: "\<forall>d. is_workflow (init_diffusion_wf ext d)"
  shows "\<exists>subject_data sessions.
           collect_data ext s = Inr (subject_data, sessions)
         \<and> session_subgraphs (init_anatomical_wf ext ''anatomical_wf'') sub
             = map (init_diffusion_wf ext) (map snd sessions)
         \<and> filter is_workflow (wf_nodes sub)
             = init_anatomical_wf ext ''anatomical_wf''
               # session_subgraphs (init_anatomical_wf ext ''anatomical_wf'') sub
         \<and> list_all
              (\<lambda>x. feeding sub (node_name x) ''inputnode.whole_brain_t1w_parcellation''
                     = [(node_name (init_anatomical_wf ext ''anatomical_wf''),
                         ''outputnode.whole_brain_parcellation'')]
                  \<and> feeding sub (node_name x) ''inputnode.gm_cropped_t1w_parcellation''
                     = [(node_name (init_anatomical_wf ext ''anatomical_wf''),
                         ''outputnode.gm_cropped_parcellation'')])
              (session_subgraphs (init_anatomical_wf ext ''anatomical_wf'') sub)"
proof -
  let ?anat = "init_anatomical_wf ext ''anatomical_wf''"
  from subject_shape [OF ok anat dwi] full obtain subject_data sessions inputs where
    cd: "collect_data ext s = Inr (subject_data, sessions)"
    and nodes: "wf_nodes sub = [inputnode_subject inputs, ?anat]
                  @ map (init_diffusion_wf ext) (map snd sessions)"
    and edges: "wf_edges sub =
                  concat (map edges_of (anatomical_connections (inputnode_subject inputs) ?anat))
                  @ session_edges ext (inputnode_subject inputs) ?anat (map snd sessions)"
    and dn: "distinct (wf_nodes sub)"
    and de: "distinct (map edge_dest (wf_edges sub))"
    by auto
  let ?ds = "map (init_diffusion_wf ext) (map snd sessions)"
  have notanat: "?anat \<notin> set ?ds"
    using dn unfolding nodes by auto
  have allwf: "\<forall>x \<in> set ?ds. is_workflow x"
    using dwi by auto
  have "\<forall>x \<in> set ?ds. is_workflow x \<and> x \<noteq> ?anat"
    using notanat allwf by blast
  then have keep: "filter (\<lambda>n. is_workflow n \<and> n \<noteq> ?anat) ?ds = ?ds"
    by (rule filter_True)
  have inp: "\<not> is_workflow (inputnode_subject inputs)"
    by (simp add: inputnode_subject_def)
  have sess: "session_subgraphs ?anat sub = ?ds"
    unfolding session_subgraphs_def nodes using keep inp by simp
  have keep2: "filter is_workflow ?ds = ?ds"
    using allwf by (rule filter_True)
  have nested: "filter is_workflow (wf_nodes sub) = ?anat # ?ds"
    unfolding nodes using keep2 inp anat by simp
  have fed: "list_all
      (\<lambda>x. feeding sub (node_name x) ''inputnode.whole_brain_t1w_parcellation''
             = [(node_name ?anat, ''outputnode.whole_brain_parcellation'')]
          \<and> feeding sub (node_name x) ''inputnode.gm_cropped_t1w_parcellation''
             = [(node_name ?anat, ''outputnode.gm_cropped_parcellation'')]) ?ds"
  proof -
    have "feeding sub (node_name (init_diffusion_wf ext d)) ''inputnode.whole_brain_t1w_parcellation''
             = [(node_name ?anat, ''outputnode.whole_brain_parcellation'')]
          \<and> feeding sub (node_name (init_diffusion_wf ext d)) ''inputnode.gm_cropped_t1w_parcellation''
             = [(node_name ?anat, ''outputnode.gm_cropped_parcellation'')]"
      if "d \<in> set (map snd sessions)" for d
      using feeding_singleton [OF de] session_edges_parcellations [OF that] edges
      by simp
    then show ?thesis
      unfolding list_all_iff by auto
  qed
  show ?thesis
    using cd sess nested fed
    by (intro exI [of _ subject_data] exI [of _ sessions]) simp
qed

lemma add_nodes_single:
  "add_nodes flow [x] = Inr flow' \<Longrightarrow>
   wf_nodes flow' = wf_nodes flow @ [x] \<and> node_name flow' = node_name flow"
  by (auto simp: add_nodes_def split: option.splits if_splits)

lemma fst_single_subject_world:
  "fst (init_single_subject_wf cfg ext s a w) = fst (init_single_subject_wf cfg ext s a w')"
  by (simp add: init_single_subject_wf_def Let_def split: option.splits)

lemma build_subjects_shape:
  "build_subjects cfg ext a flow ps w = (Inr flow', w') \<Longrightarrow>
   \<exists>subs. wf_nodes flow' = wf_nodes flow @ subs
        \<and> list_all2 (\<lambda>s sub. fst (init_single_subject_wf cfg ext s a w0) = Inr sub) ps subs"
proof (induction ps arbitrary: flow w)
  case Nil
  then show ?case by simp
next
  case (Cons s ps)
  from Cons.prems obtain sub w1 flow1 where
    one: "init_single_subject_wf cfg ext s a w = (Inr sub, w1)"
    and add: "add_nodes flow [sub] = Inr flow1"
    and rest: "\<exists>w2. build_subjects cfg ext a flow1 ps w2 = (Inr flow', w')"
    by (auto split: prod.splits sum.splits)
  from rest obtain w2 where "build_subjects cfg ext a flow1 ps w2 = (Inr flow', w')"
    by blast
  from Cons.IH [OF this] obtain subs where
    subs: "wf_nodes flow' = wf_nodes flow1 @ subs"
    "list_all2 (\<lambda>s sub. fst (init_single_subject_wf cfg ext s a w0) = Inr sub) ps subs"
    by blast
  have "fst (init_single_subject_wf cfg ext s a w0) = Inr sub"
    using one fst_single_subject_world [of cfg ext s a w0 w] by simp
  with subs add_nodes_single [OF add] show ?case
    by (intro exI [of _ "sub # subs"]) simp
qed

lemma example_inputs_eq:
  "subject_inputs [''data'', ''derivatives'', ''qsipost''] (example_atlas ''brainnetome'')
     example_subject_data s [''data'', ''derivatives'', ''freesurfer'']
   = Inr (example_inputs s)"
  by (simp add: subject_inputs_def bind_error_def getattr_def getitem_def example_atlas_def
      example_subject_data_def path_str_def example_inputs_def)

lemma example_anatomical_accepts:
  "anatomical_accepts (example_anatomical_wf ''anatomical_wf'')"
  by (simp add: anatomical_accepts_def example_anatomical_wf_def anatomical_ports_def)

lemma example_first_connect:
  "connect (Workflow n [] [])
     (anatomical_connections (inputnode_subject inputs) (example_anatomical_wf ''anatomical_wf''))
   = Inr (Workflow n [inputnode_subject inputs, example_anatomical_wf ''anatomical_wf'']
            example_anatomical_edges)"
  unfolding anatomical_accepted [OF example_anatomical_accepts] anatomical_edges
  by (simp add: example_anatomical_edges_def example_anatomical_wf_def)

lemma example_sessions_01:
  "connect_sessions example_collaborators (inputnode_subject inputs)
     (example_anatomical_wf ''anatomical_wf'')
     (Workflow n [inputnode_subject inputs, example_anatomical_wf ''anatomical_wf'']
        example_anatomical_edges)
     [[(''session'', ''1'')]]
   = Inr (Workflow n
            [inputnode_subject inputs, example_anatomical_wf ''anatomical_wf'',
             example_diffusion_wf [(''session'', ''1'')]]
            (example_anatomical_edges @ example_session_edges ''1''))"
  by (simp add: connect_def session_connections_def example_collaborators_def
      example_diffusion_wf_def example_anatomical_wf_def inputnode_subject_def
      example_anatomical_edges_def example_session_edges_def)

lemma example_sessions_02:
  "connect_sessions example_collaborators (inputnode_subject inputs)
     (example_anatomical_wf ''anatomical_wf'')
     (Workflow n [inputnode_subject inputs, example_anatomical_wf ''anatomical_wf'']
        example_anatomical_edges)
     [[(''session'', ''1'')], [(''session'', ''2'')]]
   = Inr (Workflow n
            [inputnode_subject inputs, example_anatomical_wf ''anatomical_wf'',
             example_diffusion_wf [(''session'', ''1'')],
             example_diffusion_wf [(''session'', ''2'')]]
            (example_anatomical_edges @ example_session_edges ''1''
             @ example_session_edges ''2''))"
  by (simp add: connect_def session_connections_def example_collaborators_def
      example_diffusion_wf_def example_anatomical_wf_def inputnode_subject_def
      example_anatomical_edges_def example_session_edges_def)

text \<open>
  The builders evaluated on the concrete cohort: both subjects are built, the cohort
  build returns the expected root workflow, and the cohort with the participant whose
  files cannot be collected stops at that participant.
\<close>

lemma example_collaborators_simps:
  "Atlas example_collaborators = example_atlas"
  "collect_data example_collaborators = example_collect_data"
  "init_anatomical_wf example_collaborators = example_anatomical_wf"
  "init_diffusion_wf example_collaborators = example_diffusion_wf"
  by (simp_all add: example_collaborators_def)

lemma example_config_simps:
  "participant_label example_config = [''01'', ''02'']"
  "output_dir example_config = [''data'', ''derivatives'', ''qsipost'']"
  "qsiprep_version example_config = Some ''0.19.0''"
  "anat_only example_config = PyBool False"
  "write_graph example_config = PyBool True"
  "run_uuid example_config = ''run1''"
  "version example_config = (0, 1)"
  "parcellation_atlas example_config = AtlasName ''brainnetome''"
  by (simp_all add: example_config_def)

lemma example_resolved:
  "parcellation_atlas cfg = AtlasName ''brainnetome'' \<Longrightarrow>
   resolve_atlas cfg example_collaborators = Inr (example_atlas ''brainnetome'')"
  by (simp add: resolve_atlas_def example_collaborators_simps example_atlas_def)

lemma example_subject_01:
  assumes "output_dir cfg = [''data'', ''derivatives'', ''qsipost'']"
    and "qsiprep_version cfg = Some v" and "\<not> truthy (anat_only cfg)"
  shows "init_single_subject_wf cfg example_collaborators ''01'' (example_atlas ''brainnetome'') w
         = (Inr (example_subject_wf ''01'' [''1'']),
            w\<lparr>made_dirs := made_dirs w @ [[''data'', ''derivatives'', ''freesurfer'']]\<rparr>)"
  using assms
  unfolding example_subject_wf_def inputnode_subject_def [symmetric]
  by (simp add: init_single_subject_wf_def example_collaborators_simps example_collect_data_def
      bind_error_def example_inputs_eq example_first_connect example_sessions_01
      del: connect_sessions.simps)

lemma example_subject_02:
  assumes "output_dir cfg = [''data'', ''derivatives'', ''qsipost'']"
    and "qsiprep_version cfg = Some v" and "\<not> truthy (anat_only cfg)"
  shows "init_single_subject_wf cfg example_collaborators ''02'' (example_atlas ''brainnetome'') w
         = (Inr (example_subject_wf ''02'' [''1'', ''2'']),
            w\<lparr>made_dirs := made_dirs w @ [[''data'', ''derivatives'', ''freesurfer'']]\<rparr>)"
  using assms
  unfolding example_subject_wf_def inputnode_subject_def [symmetric]
  by (simp add: init_single_subject_wf_def example_collaborators_simps example_collect_data_def
      bind_error_def example_inputs_eq example_first_connect example_sessions_02
      del: connect_sessions.simps)

lemma example_subject_03:
  assumes "qsiprep_version cfg = Some v"
  shows "init_single_subject_wf cfg example_collaborators ''03'' a w
         = (Inl (DiscoveryError ''03''),
            w\<lparr>made_dirs := made_dirs w @ [butlast (output_dir cfg) @ [''freesurfer'']]\<rparr>)"
  using assms
  by (simp add: init_single_subject_wf_def example_collaborators_simps example_collect_data_def
      bind_error_def)

lemma example_subject_anat_only:
  assumes "output_dir cfg = [''data'', ''derivatives'', ''qsipost'']"
    and "qsiprep_version cfg = Some v" and "truthy (anat_only cfg)"
  shows "init_single_subject_wf cfg example_collaborators ''02'' (example_atlas ''brainnetome'') w
         = (Inr (example_subject_wf ''02'' []),
            w\<lparr>made_dirs := made_dirs w @ [[''data'', ''derivatives'', ''freesurfer'']]\<rparr>)"
  using assms
  unfolding example_subject_wf_def inputnode_subject_def [symmetric]
  by (simp add: init_single_subject_wf_def example_collaborators_simps example_collect_data_def
      bind_error_def example_inputs_eq example_first_connect)

lemma example_add_01:
  "add_nodes (Workflow n [] []) [example_subject_wf ''01'' [''1'']]
   = Inr (Workflow n [example_subject_wf ''01'' [''1'']] [])"
  by (simp add: add_nodes_def)

lemma example_add_02:
  "add_nodes (Workflow n [example_subject_wf ''01'' [''1'']] [])
     [example_subject_wf ''02'' [''1'', ''2'']]
   = Inr (Workflow n [example_subject_wf ''01'' [''1''], example_subject_wf ''02'' [''1'', ''2'']] [])"
  by (simp add: add_nodes_def example_subject_wf_def)

lemma example_build:
  "init_qsipost_wf example_config example_collaborators empty_world
   = (Inr example_root, example_world)"
  by (simp add: init_qsipost_wf_def example_resolved example_config_simps
      example_subject_01 example_subject_02 example_add_01 example_add_02
      root_name_def show_nat.simps digit_def log_dir_def example_root_def example_world_def
      empty_world_def)

lemma failing_config_simps:
  "participant_label failing_cohort_config = [''01'', ''03'', ''02'']"
  "output_dir failing_cohort_config = [''data'', ''derivatives'', ''qsipost'']"
  "qsiprep_version failing_cohort_config = Some ''0.19.0''"
  "anat_only failing_cohort_config = PyBool False"
  "write_graph failing_cohort_config = PyBool True"
  "run_uuid failing_cohort_config = ''run1''"
  "version failing_cohort_config = (0, 1)"
  "parcellation_atlas failing_cohort_config = AtlasName ''brainnetome''"
  by (simp_all add: failing_cohort_config_def example_config_def)

lemma failing_build:
  "init_qsipost_wf failing_cohort_config example_collaborators empty_world
   = (Inl (DiscoveryError ''03''), failing_cohort_world)"
  by (simp add: init_qsipost_wf_def example_resolved failing_config_simps
      example_subject_01 example_subject_03 example_add_01
      root_name_def show_nat.simps digit_def log_dir_def failing_cohort_world_def
      empty_world_def)

text \<open>
  Claim C1. For every cohort build with \<open>anat_only\<close> false that returns a root
  workflow, the anatomical and session builders returning workflows: the subject
  subgraphs of the root are one per participant, in the order of the participant list
  and named after the participants; the session subgraphs of each subject are one per
  session record that \<^verbatim>\<open>collect_data\<close> found for it, in their order; the nested
  workflows of a subject are the anatomical workflow, once, and its session workflows;
  and the two parcellation inputs of every session subgraph are fed by exactly one
  edge each, from the parcellation outputs of that one anatomical workflow.
\<close>

theorem cohort_fan_out:
  assumes "init_qsipost_wf cfg ext w = (Inr qsipost_wf, w')"
    and "\<not> truthy (anat_only cfg)"
    and "is_workflow (init_anatomical_wf ext ''anatomical_wf'')"
    and "\<forall>d. is_workflow (init_diffusion_wf ext d)"
  shows "map node_name (subject_subgraphs qsipost_wf)
           = map (\<lambda>s. ''single_subject_'' @ s @ ''_wf'') (participant_label cfg)
         \<and> list_all2
             (\<lambda>s sub. \<exists>subject_data sessions.
                collect_data ext s = Inr (subject_data, sessions)
              \<and> session_subgraphs (init_anatomical_wf ext ''anatomical_wf'') sub
                  = map (init_diffusion_wf ext) (map snd sessions)
              \<and> filter is_workflow (wf_nodes sub)
                  = init_anatomical_wf ext ''anatomical_wf''
                    # session_subgraphs (init_anatomical_wf ext ''anatomical_wf'') sub
              \<and> list_all
                   (\<lambda>x. feeding sub (node_name x) ''inputnode.whole_brain_t1w_parcellation''
                          = [(node_name (init_anatomical_wf ext ''anatomical_wf''),
                              ''outputnode.whole_brain_parcellation'')]
                       \<and> feeding sub (node_name x) ''inputnode.gm_cropped_t1w_parcellation''
                          = [(node_name (init_anatomical_wf ext ''anatomical_wf''),
                              ''outputnode.gm_cropped_parcellation'')])
                   (session_subgraphs (init_anatomical_wf ext ''anatomical_wf'') sub))
             (participant_label cfg) (subject_subgraphs qsipost_wf)"
proof -
  let ?anat = "init_anatomical_wf ext ''anatomical_wf''"
  let ?P = "\<lambda>s sub. \<exists>subject_data sessions.
                collect_data ext s = Inr (subject_data, sessions)
              \<and> session_subgraphs ?anat sub = map (init_diffusion_wf ext) (map snd sessions)
              \<and> filter is_workflow (wf_nodes sub) = ?anat # session_subgraphs ?anat sub
              \<and> list_all
                   (\<lambda>x. feeding sub (node_name x) ''inputnode.whole_brain_t1w_parcellation''
                          = [(node_name ?anat, ''outputnode.whole_brain_parcellation'')]
                       \<and> feeding sub (node_name x) ''inputnode.gm_cropped_t1w_parcellation''
                          = [(node_name ?anat, ''outputnode.gm_cropped_parcellation'')])
                   (session_subgraphs ?anat sub)"
  from assms(1) obtain a where
    built: "build_subjects cfg ext a (Workflow (root_name cfg) [] []) (participant_label cfg) w
            = (Inr qsipost_wf, w')"
    by (auto simp: init_qsipost_wf_def split: sum.splits)
  from build_subjects_shape [OF built, of w] obtain subs where
    nodes: "wf_nodes qsipost_wf = subs"
    and each: "list_all2 (\<lambda>s sub. fst (init_single_subject_wf cfg ext s a w) = Inr sub)
                 (participant_label cfg) subs"
    by auto
  have shape: "node_name sub = ''single_subject_'' @ s @ ''_wf'' \<and> is_workflow sub \<and> ?P s sub"
    if "fst (init_single_subject_wf cfg ext s a w) = Inr sub" for s sub
  proof -
    from subject_shape [OF that assms(3,4)]
    have name: "node_name sub = ''single_subject_'' @ s @ ''_wf''"
      and "wf_nodes sub \<noteq> []"
      by auto
    then have "is_workflow sub" by (cases sub) auto
    with name show ?thesis
      by (intro conjI subject_sessions [OF that assms(2,3,4)])
  qed
  have all: "list_all2
     (\<lambda>s sub. node_name sub = ''single_subject_'' @ s @ ''_wf'' \<and> is_workflow sub \<and> ?P s sub)
     (participant_label cfg) subs"
    by (rule list_all2_mono [OF each]) (rule shape)
  have "list_all2 (\<lambda>s sub. is_workflow sub) (participant_label cfg) subs"
    by (rule list_all2_mono [OF all]) simp
  then have wfs: "\<forall>sub \<in> set subs. is_workflow sub"
    by (auto simp: list_all2_conv_all_nth in_set_conv_nth)
  then have sg: "subject_subgraphs qsipost_wf = subs"
    unfolding subject_subgraphs_def nodes by (rule filter_True)
  have "list_all2 (\<lambda>s sub. node_name sub = ''single_subject_'' @ s @ ''_wf'')
          (participant_label cfg) subs"
    by (rule list_all2_mono [OF all]) simp
  then have names: "map node_name subs
               = map (\<lambda>s. ''single_subject_'' @ s @ ''_wf'') (participant_label cfg)"
    by (auto simp: list_all2_conv_all_nth intro!: nth_equalityI)
  have "list_all2 ?P (participant_label cfg) subs"
    by (rule list_all2_mono [OF all]) simp
  with names show ?thesis
    unfolding sg by (intro conjI)
qed

theorem cohort_fan_out_witness:
  "init_qsipost_wf example_config example_collaborators empty_world
     = (Inr example_root, example_world)
   \<and> \<not> truthy (anat_only example_config)
   \<and> is_workflow (init_anatomical_wf example_collaborators ''anatomical_wf'')
   \<and> (\<forall>d. is_workflow (init_diffusion_wf example_collaborators d))
   \<and> map node_name (subject_subgraphs example_root)
       = [''single_subject_01_wf'', ''single_subject_02_wf'']
   \<and> map (\<lambda>sub. map node_name
                    (session_subgraphs (example_anatomical_wf ''anatomical_wf'') sub))
         (subject_subgraphs example_root)
       = [[''diffusion_ses_1_wf''], [''diffusion_ses_1_wf'', ''diffusion_ses_2_wf'']]
   \<and> list_all2
       (\<lambda>s sub. \<exists>subject_data sessions.
          collect_data example_collaborators s = Inr (subject_data, sessions)
        \<and> session_subgraphs (init_anatomical_wf example_collaborators ''anatomical_wf'') sub
            = map (init_diffusion_wf example_collaborators) (map snd sessions)
        \<and> filter is_workflow (wf_nodes sub)
            = init_anatomical_wf example_collaborators ''anatomical_wf''
              # session_subgraphs (init_anatomical_wf example_collaborators ''anatomical_wf'') sub
        \<and> list_all
             (\<lambda>x. feeding sub (node_name x) ''inputnode.whole_brain_t1w_parcellation''
                    = [(node_name (init_anatomical_wf example_collaborators ''anatomical_wf''),
                        ''outputnode.whole_brain_parcellation'')]
                 \<and> feeding sub (node_name x) ''inputnode.gm_cropped_t1w_parcellation''
                    = [(node_name (init_anatomical_wf example_collaborators ''anatomical_wf''),
                        ''outputnode.gm_cropped_parcellation'')])
             (session_subgraphs (init_anatomical_wf example_collaborators ''anatomical_wf'') sub))
       [''01'', ''02''] (subject_subgraphs example_root)"
proof -
  have full: "\<not> truthy (anat_only example_config)"
    by (simp add: example_config_simps)
  have anat: "is_workflow (init_anatomical_wf example_collaborators ''anatomical_wf'')"
    by (simp add: example_collaborators_simps example_anatomical_wf_def)
  have dwi: "\<forall>d. is_workflow (init_diffusion_wf example_collaborators d)"
    by (simp add: example_collaborators_simps example_diffusion_wf_def)
  note fan = cohort_fan_out [OF example_build full anat dwi]
  have names: "map node_name (subject_subgraphs example_root)
               = [''single_subject_01_wf'', ''single_subject_02_wf'']"
    using fan by (simp add: example_config_simps)
  have sessions: "map (\<lambda>sub. map node_name
                    (session_subgraphs (example_anatomical_wf ''anatomical_wf'') sub))
         (subject_subgraphs example_root)
       = [[''diffusion_ses_1_wf''], [''diffusion_ses_1_wf'', ''diffusion_ses_2_wf'']]"
    by (simp add: subject_subgraphs_def session_subgraphs_def example_root_def
        example_subject_wf_def example_anatomical_wf_def example_diffusion_wf_def)
  from fan have pairs: "list_all2
       (\<lambda>s sub. \<exists>subject_data sessions.
          collect_data example_collaborators s = Inr (subject_data, sessions)
        \<and> session_subgraphs (init_anatomical_wf example_collaborators ''anatomical_wf'') sub
            = map (init_diffusion_wf example_collaborators) (map snd sessions)
        \<and> filter is_workflow (wf_nodes sub)
            = init_anatomical_wf example_collaborators ''anatomical_wf''
              # session_subgraphs (init_anatomical_wf example_collaborators ''anatomical_wf'') sub
        \<and> list_all
             (\<lambda>x. feeding sub (node_name x) ''inputnode.whole_brain_t1w_parcellation''
                    = [(node_name (init_anatomical_wf example_collaborators ''anatomical_wf''),
                        ''outputnode.whole_brain_parcellation'')]
                 \<and> feeding sub (node_name x) ''inputnode.gm_cropped_t1w_parcellation''
                    = [(node_name (init_anatomical_wf example_collaborators ''anatomical_wf''),
                        ''outputnode.gm_cropped_parcellation'')])
             (session_subgraphs (init_anatomical_wf example_collaborators ''anatomical_wf'') sub))
       [''01'', ''02''] (subject_subgraphs example_root)"
    unfolding example_config_simps by (rule conjunct2)
  show ?thesis
    by (intro conjI example_build full anat dwi names sessions pairs)
qed

text \<open>
  Claim C4. With \<open>anat_only\<close> true, for every subject whose files are collected and
  whose inputs are found, whatever the session records, and an anatomical workflow
  that offers the inputs the builder wires: the subject builder returns the subject
  workflow, which holds the subject input node and the anatomical workflow and no
  session subgraph.
\<close>

theorem anat_only_subject_has_no_sessions:
  assumes "truthy (anat_only cfg)"
    and "qsiprep_version cfg = Some v"
    and "collect_data ext s = Inr (subject_data, sessions)"
    and "subject_inputs (output_dir cfg) a subject_data s
           (butlast (output_dir cfg) @ [''freesurfer'']) = Inr inputs"
    and "anatomical_accepts (init_anatomical_wf ext ''anatomical_wf'')"
  shows "\<exists>sub. fst (init_single_subject_wf cfg ext s a w) = Inr sub
           \<and> node_name sub = ''single_subject_'' @ s @ ''_wf''
           \<and> wf_nodes sub = [inputnode_subject inputs, init_anatomical_wf ext ''anatomical_wf'']
           \<and> filter is_workflow (wf_nodes sub) = [init_anatomical_wf ext ''anatomical_wf'']
           \<and> session_subgraphs (init_anatomical_wf ext ''anatomical_wf'') sub = []"
proof -
  let ?anat = "init_anatomical_wf ext ''anatomical_wf''"
  let ?sub = "Workflow (''single_subject_'' @ s @ ''_wf'') [inputnode_subject inputs, ?anat]
                (concat (map edges_of (anatomical_connections (inputnode_subject inputs) ?anat)))"
  have built: "fst (init_single_subject_wf cfg ext s a w) = Inr ?sub"
    using assms(1-4)
    by (simp add: init_single_subject_wf_def bind_error_def anatomical_accepted [OF assms(5)])
  have anat: "is_workflow ?anat"
    using assms(5) by (simp add: anatomical_accepts_def)
  have inp: "\<not> is_workflow (inputnode_subject inputs)"
    by (simp add: inputnode_subject_def)
  have "filter is_workflow (wf_nodes ?sub) = [?anat]"
    using anat inp by simp
  moreover have "session_subgraphs ?anat ?sub = []"
    using inp by (simp add: session_subgraphs_def)
  ultimately show ?thesis
    using built by (intro exI [of _ ?sub]) simp
qed

theorem anat_only_subject_witness:
  "truthy (anat_only anat_only_config)
   \<and> qsiprep_version anat_only_config = Some ''0.19.0''
   \<and> collect_data example_collaborators ''02''
       = Inr (example_subject_data,
              [(''ses-1'', [(''session'', ''1'')]), (''ses-2'', [(''session'', ''2'')])])
   \<and> subject_inputs (output_dir anat_only_config) (example_atlas ''brainnetome'')
         example_subject_data ''02'' (butlast (output_dir anat_only_config) @ [''freesurfer''])
       = Inr (example_inputs ''02'')
   \<and> anatomical_accepts (init_anatomical_wf example_collaborators ''anatomical_wf'')
   \<and> fst (init_single_subject_wf anat_only_config example_collaborators ''02''
             (example_atlas ''brainnetome'') empty_world)
       = Inr (example_subject_wf ''02'' [])
   \<and> wf_nodes (example_subject_wf ''02'' [])
       = [inputnode_subject (example_inputs ''02''), example_anatomical_wf ''anatomical_wf'']
   \<and> filter is_workflow (wf_nodes (example_subject_wf ''02'' []))
       = [example_anatomical_wf ''anatomical_wf'']
   \<and> session_subgraphs (example_anatomical_wf ''anatomical_wf'') (example_subject_wf ''02'' [])
       = []"
proof -
  have cfg: "truthy (anat_only anat_only_config)"
    "qsiprep_version anat_only_config = Some ''0.19.0''"
    "output_dir anat_only_config = [''data'', ''derivatives'', ''qsipost'']"
    by (simp_all add: anat_only_config_def example_config_def)
  have cd: "collect_data example_collaborators ''02''
       = Inr (example_subject_data,
              [(''ses-1'', [(''session'', ''1'')]), (''ses-2'', [(''session'', ''2'')])])"
    by (simp add: example_collaborators_simps example_collect_data_def)
  have si: "subject_inputs (output_dir anat_only_config) (example_atlas ''brainnetome'')
         example_subject_data ''02'' (butlast (output_dir anat_only_config) @ [''freesurfer''])
       = Inr (example_inputs ''02'')"
    by (simp add: cfg example_inputs_eq)
  have acc: "anatomical_accepts (init_anatomical_wf example_collaborators ''anatomical_wf'')"
    by (simp add: example_collaborators_simps example_anatomical_accepts)
  have built: "fst (init_single_subject_wf anat_only_config example_collaborators ''02''
             (example_atlas ''brainnetome'') empty_world)
       = Inr (example_subject_wf ''02'' [])"
    by (simp add: example_subject_anat_only [OF cfg(3) cfg(2) cfg(1)])
  from anat_only_subject_has_no_sessions [OF cfg(1) cfg(2) cd si acc, of empty_world]
  obtain sub where sub:
    "fst (init_single_subject_wf anat_only_config example_collaborators ''02''
            (example_atlas ''brainnetome'') empty_world) = Inr sub"
    "wf_nodes sub = [inputnode_subject (example_inputs ''02''),
                     init_anatomical_wf example_collaborators ''anatomical_wf'']"
    "filter is_workflow (wf_nodes sub)
       = [init_anatomical_wf example_collaborators ''anatomical_wf'']"
    "session_subgraphs (init_anatomical_wf example_collaborators ''anatomical_wf'') sub = []"
    by blast
  from sub(1) have eq: "sub = example_subject_wf ''02'' []"
    unfolding built by simp
  have nodes: "wf_nodes (example_subject_wf ''02'' [])
       = [inputnode_subject (example_inputs ''02''), example_anatomical_wf ''anatomical_wf'']"
    using sub(2) unfolding eq example_collaborators_simps .
  have nested: "filter is_workflow (wf_nodes (example_subject_wf ''02'' []))
       = [example_anatomical_wf ''anatomical_wf'']"
    using sub(3) unfolding eq example_collaborators_simps .
  have none: "session_subgraphs (example_anatomical_wf ''anatomical_wf'')
                (example_subject_wf ''02'' []) = []"
    using sub(4) unfolding eq example_collaborators_simps .
  show ?thesis
    by (intro conjI cfg(1) cfg(2) cd si acc built nodes nested none)
qed

lemma build_subjects_append:
  "build_subjects cfg ext a flow pre w = (Inr flow', w') \<Longrightarrow>
   build_subjects cfg ext a flow (pre @ post) w = build_subjects cfg ext a flow' post w'"
proof (induction pre arbitrary: flow w)
  case Nil
  then show ?case by simp
next
  case (Cons s pre)
  then show ?case
    by (auto split: prod.splits sum.splits)
qed

lemma failing_subject_aborts_loop:
  "s \<in> set ps \<Longrightarrow> fst (init_single_subject_wf cfg ext s a w0) = Inl e \<Longrightarrow>
   \<exists>e'. fst (build_subjects cfg ext a flow ps w) = Inl e'"
proof (induction ps arbitrary: flow w)
  case Nil
  then show ?case by simp
next
  case (Cons x xs)
  show ?case
  proof (cases "fst (init_single_subject_wf cfg ext x a w)")
    case (Inl e1)
    then show ?thesis by (cases "init_single_subject_wf cfg ext x a w") auto
  next
    case (Inr sub)
    then have "x \<noteq> s"
      using Cons.prems(2) fst_single_subject_world [of cfg ext s a w w0] by auto
    with Cons.prems have "s \<in> set xs" by auto
    from Cons.IH [OF this Cons.prems(2)] Inr show ?thesis
      by (cases "init_single_subject_wf cfg ext x a w") (auto split: sum.splits)
  qed
qed

text \<open>
  Claim C7. If an exception is raised while the subgraph of one subject is built, the
  whole cohort build aborts: with the atlas resolved and a participant \<open>s\<close> whose build
  raises, \<^verbatim>\<open>init_qsipost_wf\<close> raises and returns no root workflow. No subject is skipped
  and no later one is built: when the subjects before \<open>s\<close> were built, the exception
  that leaves \<^verbatim>\<open>init_qsipost_wf\<close> is the one of \<open>s\<close>, and the effects are those at the
  moment \<open>s\<close> failed, whatever subjects follow.
\<close>

theorem subject_failure_aborts_cohort:
  assumes "resolve_atlas cfg ext = Inr a"
    and "participant_label cfg = pre @ s # post"
    and "fst (init_single_subject_wf cfg ext s a w0) = Inl e"
  shows "(\<exists>e'. fst (init_qsipost_wf cfg ext w) = Inl e')
         \<and> (\<forall>flow w1.
               build_subjects cfg ext a (Workflow (root_name cfg) [] []) pre w = (Inr flow, w1)
               \<longrightarrow> init_qsipost_wf cfg ext w
                    = (Inl e, snd (init_single_subject_wf cfg ext s a w1)))"
proof (intro conjI allI impI)
  have "s \<in> set (participant_label cfg)"
    using assms(2) by simp
  from failing_subject_aborts_loop [OF this assms(3)] assms(1)
  show "\<exists>e'. fst (init_qsipost_wf cfg ext w) = Inl e'"
    by (simp add: init_qsipost_wf_def)
next
  fix flow w1
  assume pre: "build_subjects cfg ext a (Workflow (root_name cfg) [] []) pre w = (Inr flow, w1)"
  have "fst (init_single_subject_wf cfg ext s a w1) = Inl e"
    using assms(3) fst_single_subject_world [of cfg ext s a w1 w0] by simp
  then obtain w2 where w2: "init_single_subject_wf cfg ext s a w1 = (Inl e, w2)"
    by (cases "init_single_subject_wf cfg ext s a w1") auto
  then have "build_subjects cfg ext a flow (s # post) w1 = (Inl e, w2)"
    by simp
  with pre assms(1,2) w2
  show "init_qsipost_wf cfg ext w = (Inl e, snd (init_single_subject_wf cfg ext s a w1))"
    by (simp add: init_qsipost_wf_def build_subjects_append)
qed

theorem subject_failure_aborts_witness:
  "resolve_atlas failing_cohort_config example_collaborators = Inr (example_atlas ''brainnetome'')
   \<and> participant_label failing_cohort_config = [''01''] @ ''03'' # [''02'']
   \<and> fst (init_single_subject_wf failing_cohort_config example_collaborators ''03''
             (example_atlas ''brainnetome'') empty_world)
       = Inl (DiscoveryError ''03'')
   \<and> fst (build_subjects failing_cohort_config example_collaborators
             (example_atlas ''brainnetome'') (Workflow (root_name failing_cohort_config) [] [])
             [''01''] empty_world)
       = Inr (Workflow ''qsipost_0_1_wf'' [example_subject_wf ''01'' [''1'']] [])
   \<and> fst (init_single_subject_wf failing_cohort_config example_collaborators ''02''
             (example_atlas ''brainnetome'') empty_world)
       = Inr (example_subject_wf ''02'' [''1'', ''2''])
   \<and> init_qsipost_wf failing_cohort_config example_collaborators empty_world
       = (Inl (DiscoveryError ''03''), failing_cohort_world)"
proof -
  let ?w1 = "\<lparr>made_dirs =
        [[''data'', ''derivatives'', ''freesurfer''],
         [''data'', ''derivatives'', ''qsipost'', ''sub-01'', ''log'', ''run1'']],
      written_files =
        [[''data'', ''derivatives'', ''qsipost'', ''sub-01'', ''log'', ''run1'', ''qsipost.toml'']],
      drawn_graphs = [''single_subject_01_wf'']\<rparr>"
  have atlas: "resolve_atlas failing_cohort_config example_collaborators
               = Inr (example_atlas ''brainnetome'')"
    by (simp add: example_resolved failing_config_simps)
  have cohort: "participant_label failing_cohort_config = [''01''] @ ''03'' # [''02'']"
    by (simp add: failing_config_simps)
  have fails: "fst (init_single_subject_wf failing_cohort_config example_collaborators ''03''
             (example_atlas ''brainnetome'') empty_world) = Inl (DiscoveryError ''03'')"
    by (simp add: example_subject_03 failing_config_simps)
  have before: "build_subjects failing_cohort_config example_collaborators
             (example_atlas ''brainnetome'') (Workflow (root_name failing_cohort_config) [] [])
             [''01''] empty_world
       = (Inr (Workflow ''qsipost_0_1_wf'' [example_subject_wf ''01'' [''1'']] []), ?w1)"
    by (simp add: failing_config_simps example_subject_01 example_add_01
        root_name_def show_nat.simps digit_def log_dir_def empty_world_def)
  have later: "fst (init_single_subject_wf failing_cohort_config example_collaborators ''02''
             (example_atlas ''brainnetome'') empty_world)
       = Inr (example_subject_wf ''02'' [''1'', ''2''])"
    by (simp add: example_subject_02 failing_config_simps)
  have stopped: "snd (init_single_subject_wf failing_cohort_config example_collaborators ''03''
             (example_atlas ''brainnetome'') ?w1) = failing_cohort_world"
    by (simp add: example_subject_03 failing_config_simps failing_cohort_world_def)
  from subject_failure_aborts_cohort [OF atlas cohort fails, of empty_world] before
  have "init_qsipost_wf failing_cohort_config example_collaborators empty_world
        = (Inl (DiscoveryError ''03''),
           snd (init_single_subject_wf failing_cohort_config example_collaborators ''03''
                  (example_atlas ''brainnetome'') ?w1))"
    by blast
  then have aborted: "init_qsipost_wf failing_cohort_config example_collaborators empty_world
       = (Inl (DiscoveryError ''03''), failing_cohort_world)"
    unfolding stopped .
  have before': "fst (build_subjects failing_cohort_config example_collaborators
             (example_atlas ''brainnetome'') (Workflow (root_name failing_cohort_config) [] [])
             [''01''] empty_world)
       = Inr (Workflow ''qsipost_0_1_wf'' [example_subject_wf ''01'' [''1'']] [])"
    unfolding before by simp
  show ?thesis
    by (intro conjI atlas cohort fails before' later aborted)
qed

text \<open>
  Claim C8. When the configured atlas name cannot be resolved to an atlas image (the
  object \<^verbatim>\<open>Atlas(name, load_existing=True)\<close> has no \<open>atlas_nifti_file\<close>), the cohort
  build fails with a \<open>ValueError\<close> whose message carries the name of the atlas, before
  any subject subgraph is built: no root workflow is returned and the world is as it
  was, so no directory was made and no subject was started.
\<close>

theorem unresolved_atlas_fatal:
  assumes "parcellation_atlas cfg = AtlasName n" and "atlas_nifti_file (Atlas ext n) = None"
  shows "init_qsipost_wf cfg ext w
         = (Inl (ValueError (atlas_error_message (atlas_name (Atlas ext n)))), w)"
  using assms by (simp add: init_qsipost_wf_def resolve_atlas_def)

theorem unresolved_atlas_witness:
  "parcellation_atlas unknown_atlas_config = AtlasName ''aal''
   \<and> atlas_nifti_file (Atlas example_collaborators ''aal'') = None
   \<and> init_qsipost_wf unknown_atlas_config example_collaborators empty_world
      = (Inl (ValueError
           ''Could not find the atlas aal in the configured atlas directory. Please check the name or initialize a corresponding Atlas object.''),
         empty_world)"
  using unresolved_atlas_fatal [of unknown_atlas_config "''aal''" example_collaborators empty_world]
  by (simp add: unknown_atlas_config_def example_config_def example_collaborators_def
      example_atlas_def atlas_error_message_def)







end
